theory Spec2Isabelle
  imports Complex_Main "HOL-Library.Char_ord" "HOL-Library.List_Lexorder" "HOL-Library.Multiset"
begin

section \<open>Cells, floating-point results and errors\<close>

text \<open>
  The tables are pandas data frames. A cell of a text column is a string or null, a cell
  of a numeric column is a finite number or null (NaN), both written with \<open>option\<close>:
  \<open>None\<close> is the null cell. Numbers are real numbers: rounding errors and overflow of
  the 64-bit floats are outside the model.

  A float that arithmetic produces can also be NaN or infinite (a mean of nothing, a
  division by zero of numpy floats), so results that may be one of these are \<open>fnum\<close>.
\<close>

datatype fnum = NaN | PInf | NInf | Fin real

text \<open>Comparison \<open>x > c\<close> of a float with a finite constant: false for NaN.\<close>

fun fgt :: "fnum \<Rightarrow> real \<Rightarrow> bool" where
  "fgt (Fin x) c = (x > c)"
| "fgt PInf c = True"
| "fgt NInf c = False"
| "fgt NaN c = False"

fun fsub :: "fnum \<Rightarrow> fnum \<Rightarrow> fnum" where
  "fsub (Fin a) (Fin b) = Fin (a - b)"
| "fsub NaN y = NaN"
| "fsub x NaN = NaN"
| "fsub PInf PInf = NaN"
| "fsub NInf NInf = NaN"
| "fsub PInf y = PInf"
| "fsub NInf y = NInf"
| "fsub (Fin a) PInf = NInf"
| "fsub (Fin a) NInf = PInf"

text \<open>Multiplication by a positive finite constant (the \<open>* 100\<close> of the growth rates).\<close>

fun fscale :: "fnum \<Rightarrow> real \<Rightarrow> fnum" where
  "fscale (Fin a) c = Fin (a * c)"
| "fscale x c = x"

text \<open>
  Division of numpy floats never raises: \<open>x / 0\<close> is an infinity with the sign of \<open>x\<close>,
  \<open>0 / 0\<close> is NaN (the sign of a zero is not modelled).
\<close>

fun fdiv :: "fnum \<Rightarrow> fnum \<Rightarrow> fnum" where
  "fdiv (Fin a) (Fin b) =
     (if b = 0 then (if a = 0 then NaN else if a > 0 then PInf else NInf) else Fin (a / b))"
| "fdiv NaN y = NaN"
| "fdiv x NaN = NaN"
| "fdiv (Fin a) PInf = Fin 0"
| "fdiv (Fin a) NInf = Fin 0"
| "fdiv PInf (Fin b) = (if b \<ge> 0 then PInf else NInf)"
| "fdiv NInf (Fin b) = (if b \<ge> 0 then NInf else PInf)"
| "fdiv PInf PInf = NaN"
| "fdiv PInf NInf = NaN"
| "fdiv NInf PInf = NaN"
| "fdiv NInf NInf = NaN"

text \<open>The exceptions of Python that the modelled code can raise.\<close>

datatype error = KeyError string | ZeroDivisionError | ValueError string

text \<open>True division \<open>a / b\<close> of Python integers raises on a zero divisor.\<close>

definition py_truediv :: "int \<Rightarrow> int \<Rightarrow> error + real" where
  "py_truediv a b = (if b = 0 then Inl ZeroDivisionError else Inr (of_int a / of_int b))"

section \<open>Series operations of pandas\<close>

text \<open>\<open>Series.sum()\<close> skips null cells; the sum of nothing is 0.\<close>

definition sum_skipna :: "real option list \<Rightarrow> real" where
  "sum_skipna xs = sum_list (List.map_filter id xs)"

text \<open>\<open>Series.count()\<close> counts the cells that are not null.\<close>

definition count_notna :: "'a option list \<Rightarrow> nat" where
  "count_notna xs = length (List.map_filter id xs)"

text \<open>\<open>Series.mean()\<close> skips null cells; the mean of nothing is NaN.\<close>

definition mean_skipna :: "real option list \<Rightarrow> fnum" where
  "mean_skipna xs =
     (let vs = List.map_filter id xs
      in if vs = [] then NaN else Fin (sum_list vs / of_nat (length vs)))"

text \<open>\<open>Series.nunique()\<close> counts the distinct cells that are not null.\<close>

definition nunique :: "'a option list \<Rightarrow> nat" where
  "nunique xs = length (remdups (List.map_filter id xs))"

text \<open>
  \<open>df.groupby(key)\<close> with the defaults \<open>sort=True, dropna=True\<close>: one group per distinct
  key that is not null, the groups in ascending order of the key, the rows of a group in
  their order in the frame.
\<close>

definition groupby :: "('r \<Rightarrow> 'k::linorder option) \<Rightarrow> 'r list \<Rightarrow> ('k \<times> 'r list) list" where
  "groupby key df =
     map (\<lambda>k. (k, filter (\<lambda>r. key r = Some k) df))
       (sort (remdups (List.map_filter key df)))"

text \<open>
  \<open>Series.pct_change()\<close> is \<open>s / s.shift(1) - 1\<close>: the first entry has no predecessor
  and is NaN; the index is kept.
\<close>

fun pct_change_values :: "real list \<Rightarrow> fnum list" where
  "pct_change_values [] = []"
| "pct_change_values (x # xs) =
     NaN # map (\<lambda>(prev, cur). fsub (fdiv (Fin cur) (Fin prev)) (Fin 1)) (zip (x # xs) xs)"

definition pct_change :: "('k \<times> real) list \<Rightarrow> ('k \<times> fnum) list" where
  "pct_change s = zip (map fst s) (pct_change_values (map snd s))"

section \<open>The tables\<close>

text \<open>
  The raw tables, as \<open>load_raw_data\<close> reads them from the CSV files, with the columns the
  code reads. A table is a list of rows of its schema (the one \<open>get_data_dictionary\<close>
  describes): a table that lacks a column the code selects, or holds cells of another
  type in it, is outside the model, and so are the errors pandas raises on one.

  A date column of a raw table holds text: a cell is null, a text that pandas parses to
  a timestamp (written as that timestamp, in nanoseconds since the epoch), or a text
  that it cannot parse.
\<close>

datatype date_cell = Null | Unparsable string | Stamp int

record order =
  o_order_id :: "string option"
  o_customer_id :: "string option"
  o_order_status :: "string option"
  o_order_purchase_timestamp :: date_cell
  o_order_delivered_customer_date :: date_cell
  o_order_estimated_delivery_date :: date_cell

record order_item =
  oi_order_id :: "string option"
  oi_order_item_id :: "int option"
  oi_product_id :: "string option"
  oi_price :: "real option"
  oi_freight_value :: "real option"

record product =
  p_product_id :: "string option"
  p_product_category_name :: "string option"

record customer =
  c_customer_id :: "string option"
  c_customer_state :: "string option"
  c_customer_city :: "string option"

record review =
  rv_order_id :: "string option"
  rv_review_score :: "real option"

text \<open>
  The merge of order items and orders, before (\<open>'d = date_cell\<close>) and after
  (\<open>'d = int option\<close>, a timestamp or NaT) the date columns are converted.
\<close>

record 'd merged_row =
  order_id :: "string option"
  order_item_id :: "int option"
  product_id :: "string option"
  price :: "real option"
  freight_value :: "real option"
  customer_id :: "string option"
  order_status :: "string option"
  order_purchase_timestamp :: 'd
  order_delivered_customer_date :: 'd
  order_estimated_delivery_date :: 'd

text \<open>The columns that \<open>extract_time_features\<close> appends.\<close>

record featured_row = "int option merged_row" +
  year :: "int option"
  month :: "int option"
  day_of_week :: "int option"
  quarter :: "int option"

text \<open>One row of the sales table that \<open>prepare_sales_data\<close> builds and every metric reads.\<close>

record sales_row = featured_row +
  delivery_days :: "int option"


section \<open>Frame operations of pandas\<close>

text \<open>
  \<open>pd.merge(left, right, on=key)\<close>, the inner join: for every left row, in order, one
  row per right row with the same key, in the order of the right frame. Null keys match
  each other, as pandas has it.
\<close>

definition merge_inner :: "('l \<Rightarrow> 'k) \<Rightarrow> ('r \<Rightarrow> 'k) \<Rightarrow> 'l list \<Rightarrow> 'r list \<Rightarrow> ('l \<times> 'r) list" where
  "merge_inner lkey rkey left right =
     concat (map (\<lambda>l. map (\<lambda>r. (l, r)) (filter (\<lambda>r. rkey r = lkey l) right)) left)"


text \<open>\<open>Series.isin(values)\<close> for a list of strings: a null cell is in no such list.\<close>

definition isin :: "string option \<Rightarrow> string list \<Rightarrow> bool" where
  "isin c vs = (case c of None \<Rightarrow> False | Some v \<Rightarrow> v \<in> set vs)"

text \<open>\<open>drop_duplicates()\<close> keeps the first of equal rows.\<close>

definition drop_duplicates :: "'a list \<Rightarrow> 'a list" where
  "drop_duplicates xs = rev (remdups (rev xs))"

text \<open>
  \<open>round(n)\<close> of numpy rounds the scaled value to the nearest integer, a half to the even
  one; NaN and the infinities stay.
\<close>

definition round_half_even :: "real \<Rightarrow> int" where
  "round_half_even x =
     (let f = \<lfloor>x\<rfloor>; d = x - of_int f
      in if d < 1/2 then f else if d > 1/2 then f + 1 else if even f then f else f + 1)"

definition np_round :: "nat \<Rightarrow> real \<Rightarrow> real" where
  "np_round n x = of_int (round_half_even (x * 10 ^ n)) / 10 ^ n"

fun fround :: "nat \<Rightarrow> fnum \<Rightarrow> fnum" where
  "fround n (Fin x) = Fin (np_round n x)"
| "fround n x = x"

text \<open>
  \<open>sort_values(by, ascending=False)\<close> orders the rows by the positions that numpy's
  \<open>argsort\<close> returns for the column, with the default kind, quicksort. That kind is not
  stable: which of two rows with equal keys comes first is not specified, and differs
  between numpy builds. The routine is therefore a parameter of every function that
  sorts, \<open>argsort_desc\<close>: the positions of the values of a column, in descending order of
  the values. All that is known of it is that it is admissible: it returns every
  position once, ordered by descending value.
\<close>

definition admissible_argsort :: "(real list \<Rightarrow> nat list) \<Rightarrow> bool" where
  "admissible_argsort argsort_desc =
     (\<forall>vs. distinct (argsort_desc vs) \<and>
           set (argsort_desc vs) = {0..<length vs} \<and>
           sorted_wrt (\<lambda>i j. vs ! i \<ge> vs ! j) (argsort_desc vs))"

definition sort_values_desc :: "(real list \<Rightarrow> nat list) \<Rightarrow> ('r \<Rightarrow> real) \<Rightarrow> 'r list \<Rightarrow> 'r list" where
  "sort_values_desc argsort_desc key df = map (\<lambda>i. df ! i) (argsort_desc (map key df))"

text \<open>
  One admissible routine, for the sample tables, built the way pandas builds its
  descending sort (reverse the column, sort ascending, reverse the positions) around a
  sort that is not stable: a selection sort that swaps the least value to the front.
\<close>

fun first_min :: "(real \<times> 'a) list \<Rightarrow> nat" where
  "first_min [] = 0"
| "first_min [x] = 0"
| "first_min (x # y # ys) =
     (let j = first_min (y # ys) in if fst x \<le> fst ((y # ys) ! j) then 0 else Suc j)"

function selection_sort :: "(real \<times> 'a) list \<Rightarrow> (real \<times> 'a) list" where
  "selection_sort [] = []"
| "selection_sort (x # xs) =
     (case first_min (x # xs) of
        0 \<Rightarrow> x # selection_sort xs
      | Suc j \<Rightarrow> (xs ! j) # selection_sort (xs[j := x]))"
  by pat_completeness auto
termination
  by (relation "measure length") auto

definition swapping_argsort_desc :: "real list \<Rightarrow> nat list" where
  "swapping_argsort_desc vs =
     rev (map snd (selection_sort (rev (zip vs [0..<length vs]))))"

section \<open>Timestamps\<close>

definition ns_per_day :: int where
  "ns_per_day = 86400000000000"

text \<open>
  The date (year, month, day) of a day number counted from 1970-01-01, in the proleptic
  Gregorian calendar that pandas uses.
\<close>

definition civil_from_days :: "int \<Rightarrow> int \<times> int \<times> int" where
  "civil_from_days z0 =
     (let z = z0 + 719468;
          era = z div 146097;
          doe = z - era * 146097;
          yoe = (doe - doe div 1460 + doe div 36524 - doe div 146096) div 365;
          doy = doe - (365 * yoe + yoe div 4 - yoe div 100);
          mp = (5 * doy + 2) div 153;
          d = doy - (153 * mp + 2) div 5 + 1;
          m = (if mp < 10 then mp + 3 else mp - 9);
          y = yoe + era * 400 + (if m \<le> 2 then 1 else 0)
      in (y, m, d))"

definition dt_year :: "int \<Rightarrow> int" where
  "dt_year t = fst (civil_from_days (t div ns_per_day))"

definition dt_month :: "int \<Rightarrow> int" where
  "dt_month t = fst (snd (civil_from_days (t div ns_per_day)))"

text \<open>Monday is 0; 1970-01-01 was a Thursday.\<close>

definition dt_dayofweek :: "int \<Rightarrow> int" where
  "dt_dayofweek t = (t div ns_per_day + 3) mod 7"

definition dt_quarter :: "int \<Rightarrow> int" where
  "dt_quarter t = (dt_month t - 1) div 3 + 1"

text \<open>
  \<open>Timedelta.days\<close>: a timedelta is a whole number of days, which may be negative, plus
  a time of day that is not; so the days are the floor of the quotient.
\<close>

definition timedelta_days :: "int \<Rightarrow> int" where
  "timedelta_days delta = delta div ns_per_day"

text \<open>\<open>pd.to_datetime(col, errors='coerce')\<close>: what cannot be parsed becomes NaT.\<close>

fun to_datetime_coerce :: "date_cell \<Rightarrow> int option" where
  "to_datetime_coerce (Stamp t) = Some t"
| "to_datetime_coerce (Unparsable s) = None"
| "to_datetime_coerce Null = None"

text \<open>\<open>pd.to_datetime(col)\<close> raises on the first cell that cannot be parsed.\<close>

fun to_datetime :: "date_cell list \<Rightarrow> error + int option list" where
  "to_datetime [] = Inr []"
| "to_datetime (Stamp t # cs) = map_sum id (\<lambda>ts. Some t # ts) (to_datetime cs)"
| "to_datetime (Null # cs) = map_sum id (\<lambda>ts. None # ts) (to_datetime cs)"
| "to_datetime (Unparsable s # cs) = Inl (ValueError s)"

section \<open>business\_metrics.py: growth metrics\<close>

record revenue_metrics =
  current_year_revenue :: real
  previous_year_revenue :: real
  revenue_growth_percent :: real

definition calculate_revenue_metrics :: "sales_row list \<Rightarrow> int \<Rightarrow> int \<Rightarrow> revenue_metrics" where
  "calculate_revenue_metrics sales_data current_year previous_year =
     (let current_revenue =
            sum_skipna (map price (filter (\<lambda>r. year r = Some current_year) sales_data));
          previous_revenue =
            sum_skipna (map price (filter (\<lambda>r. year r = Some previous_year) sales_data));
          revenue_growth =
            (if previous_revenue > 0
             then (current_revenue - previous_revenue) / previous_revenue * 100
             else 0)
      in \<lparr>current_year_revenue = current_revenue,
          previous_year_revenue = previous_revenue,
          revenue_growth_percent = revenue_growth\<rparr>)"

definition calculate_monthly_growth :: "sales_row list \<Rightarrow> int \<Rightarrow> (int \<times> fnum) list" where
  "calculate_monthly_growth sales_data y =
     (let year_data = filter (\<lambda>r. year r = Some y) sales_data;
          monthly_revenue = map (\<lambda>(m, g). (m, sum_skipna (map price g))) (groupby month year_data)
      in pct_change monthly_revenue)"

record aov_metrics =
  current_year_aov :: fnum
  previous_year_aov :: fnum
  aov_growth_percent :: fnum

text \<open>The per-order sums have no null entry, so their mean is NaN only when there is no order.\<close>

definition order_totals_mean :: "sales_row list \<Rightarrow> fnum" where
  "order_totals_mean df =
     mean_skipna (map (\<lambda>(k, g). Some (sum_skipna (map price g))) (groupby order_id df))"

definition calculate_average_order_value :: "sales_row list \<Rightarrow> int \<Rightarrow> int \<Rightarrow> aov_metrics" where
  "calculate_average_order_value sales_data current_year previous_year =
     (let current_aov = order_totals_mean (filter (\<lambda>r. year r = Some current_year) sales_data);
          previous_aov = order_totals_mean (filter (\<lambda>r. year r = Some previous_year) sales_data);
          aov_growth =
            (if fgt previous_aov 0
             then fscale (fdiv (fsub current_aov previous_aov) previous_aov) 100
             else Fin 0)
      in \<lparr>current_year_aov = current_aov,
          previous_year_aov = previous_aov,
          aov_growth_percent = aov_growth\<rparr>)"

record order_volume_metrics =
  current_year_orders :: int
  previous_year_orders :: int
  order_growth_percent :: real

text \<open>
  The order counts are Python integers, whose division raises on zero: the function
  returns an error or its dictionary.
\<close>

definition calculate_order_volume_metrics ::
    "sales_row list \<Rightarrow> int \<Rightarrow> int \<Rightarrow> error + order_volume_metrics" where
  "calculate_order_volume_metrics sales_data current_year previous_year =
     (let current_orders =
            int (nunique (map order_id (filter (\<lambda>r. year r = Some current_year) sales_data)));
          previous_orders =
            int (nunique (map order_id (filter (\<lambda>r. year r = Some previous_year) sales_data)))
      in case (if previous_orders > 0
               then map_sum id (\<lambda>q. q * 100) (py_truediv (current_orders - previous_orders) previous_orders)
               else Inr 0) of
           Inl e \<Rightarrow> Inl e
         | Inr order_growth \<Rightarrow>
             Inr \<lparr>current_year_orders = current_orders,
                  previous_year_orders = previous_orders,
                  order_growth_percent = order_growth\<rparr>)"

section \<open>business\_metrics.py: delivery speed\<close>

definition categorize_delivery_speed :: "int \<Rightarrow> string" where
  "categorize_delivery_speed days =
     (if days \<le> 3 then ''1-3 days''
      else if days \<le> 7 then ''4-7 days''
      else ''8+ days'')"

text \<open>
  \<open>.apply(categorize_delivery_speed)\<close> on a column with missing values: NaN compares false
  with 3 and with 7, so the last branch answers.
\<close>

definition categorize_cell :: "int option \<Rightarrow> string" where
  "categorize_cell d = (case d of None \<Rightarrow> ''8+ days'' | Some days \<Rightarrow> categorize_delivery_speed days)"

section \<open>business\_metrics.py: category and geographic performance\<close>

record performance_row =
  group_name :: string
  total_revenue :: real
  total_orders :: nat
  avg_order_value :: fnum

text \<open>\<open>.agg(['sum', 'count', 'mean']).round(2)\<close> of one group's prices, with the group's key.\<close>

definition agg_sum_count_mean :: "string \<Rightarrow> real option list \<Rightarrow> performance_row" where
  "agg_sum_count_mean k prices =
     \<lparr>group_name = k,
      total_revenue = np_round 2 (sum_skipna prices),
      total_orders = count_notna prices,
      avg_order_value = fround 2 (mean_skipna prices)\<rparr>"

text \<open>The table \<open>category_performance\<close> of the source, before it is sorted.\<close>

definition category_performance :: "sales_row list \<Rightarrow> product list \<Rightarrow> performance_row list" where
  "category_performance sales_data products_data =
     (let sales_with_categories =
            merge_inner fst fst
              (map (\<lambda>r. (product_id r, price r)) sales_data)
              (map (\<lambda>p. (p_product_id p, p_product_category_name p)) products_data)
      in map (\<lambda>(k, g). agg_sum_count_mean k (map (\<lambda>(l, r). snd l) g))
           (groupby (\<lambda>(l, r). snd r) sales_with_categories))"

definition calculate_product_category_performance ::
    "(real list \<Rightarrow> nat list) \<Rightarrow> sales_row list \<Rightarrow> product list \<Rightarrow> performance_row list" where
  "calculate_product_category_performance argsort_desc sales_data products_data =
     sort_values_desc argsort_desc total_revenue (category_performance sales_data products_data)"

text \<open>The table \<open>geographic_performance\<close> of the source, before it is sorted.\<close>

definition geographic_performance ::
    "sales_row list \<Rightarrow> order list \<Rightarrow> customer list \<Rightarrow> performance_row list" where
  "geographic_performance sales_data orders_data customers_data =
     (let sales_with_customers =
            merge_inner fst fst
              (map (\<lambda>r. (order_id r, price r)) sales_data)
              (map (\<lambda>ord. (o_order_id ord, o_customer_id ord)) orders_data);
          sales_with_states =
            merge_inner (\<lambda>(l, r). snd r) fst
              sales_with_customers
              (map (\<lambda>c. (c_customer_id c, c_customer_state c)) customers_data)
      in map (\<lambda>(k, g). agg_sum_count_mean k (map (\<lambda>((l, r), c). snd l) g))
           (groupby (\<lambda>(lr, c). snd c) sales_with_states))"

definition calculate_geographic_performance ::
    "(real list \<Rightarrow> nat list) \<Rightarrow> sales_row list \<Rightarrow> order list \<Rightarrow> customer list \<Rightarrow>
     performance_row list" where
  "calculate_geographic_performance argsort_desc sales_data orders_data customers_data =
     sort_values_desc argsort_desc total_revenue
       (geographic_performance sales_data orders_data customers_data)"

section \<open>business\_metrics.py: the two functions that assign to their argument\<close>

text \<open>
  A frame that a function assigns a column to is the caller's object: the function is
  modelled as returning the frame as it is after the call, next to its result. The
  column that may be attached is \<open>None\<close> while the frame does not have it.
\<close>

record sales_frame =
  sf_rows :: "sales_row list"
  sf_delivery_speed_days :: "int option list option"

record orders_frame =
  of_rows :: "order list"
  of_year :: "int option list option"

record cx_metrics =
  avg_delivery_days :: fnum
  avg_review_score :: fnum
  delivery_satisfaction_by_speed :: "(string \<times> fnum) list"

text \<open>
  The first statement of \<open>calculate_customer_experience_metrics\<close>, the assignment
  \<open>sales_data['delivery_speed_days'] = ...\<close>. The date columns of the sales table are
  datetimes already, so \<open>pd.to_datetime\<close> returns them as they are.
\<close>

definition attach_delivery_speed :: "sales_frame \<Rightarrow> sales_frame" where
  "attach_delivery_speed sales_data =
     sales_data\<lparr>sf_delivery_speed_days :=
       Some (map (\<lambda>r. case (order_delivered_customer_date r, order_purchase_timestamp r) of
                         (Some d, Some p) \<Rightarrow> Some (timedelta_days (d - p))
                       | _ \<Rightarrow> None) (sf_rows sales_data))\<rparr>"

text \<open>The rest of the function, on the frame that has the column.\<close>

definition customer_experience_of :: "sales_row list \<Rightarrow> int option list \<Rightarrow> review list \<Rightarrow> cx_metrics" where
  "customer_experience_of rows speed reviews_data =
     (let sales_with_reviews =
            merge_inner (\<lambda>(r, d). order_id r) fst
              (zip rows speed)
              (map (\<lambda>v. (rv_order_id v, rv_review_score v)) reviews_data);
          unique_orders =
            drop_duplicates (map (\<lambda>((r, d), v). (order_id r, d, snd v)) sales_with_reviews);
          categorized = map (\<lambda>(oid, d, sc). (oid, d, sc, categorize_cell d)) unique_orders;
          delivery_satisfaction =
            map (\<lambda>(k, g). (k, fround 3 (mean_skipna (map (\<lambda>(oid, d, sc, c). sc) g))))
              (groupby (\<lambda>(oid, d, sc, c). Some c) categorized)
      in \<lparr>avg_delivery_days = mean_skipna (map (\<lambda>(oid, d, sc). map_option of_int d) unique_orders),
          avg_review_score = mean_skipna (map (\<lambda>(oid, d, sc). sc) unique_orders),
          delivery_satisfaction_by_speed = delivery_satisfaction\<rparr>)"

definition calculate_customer_experience_metrics ::
    "sales_frame \<Rightarrow> review list \<Rightarrow> cx_metrics \<times> sales_frame" where
  "calculate_customer_experience_metrics sales_data reviews_data =
     (let sales_data' = attach_delivery_speed sales_data
      in (customer_experience_of (sf_rows sales_data')
            (case sf_delivery_speed_days sales_data' of Some speed \<Rightarrow> speed | None \<Rightarrow> [])
            reviews_data,
          sales_data'))"

text \<open>
  \<open>value_counts(normalize=True).round(4)\<close>: the share of every value that is not null,
  in descending order of the count.
\<close>

definition value_counts_normalized ::
    "(real list \<Rightarrow> nat list) \<Rightarrow> string option list \<Rightarrow> (string \<times> real) list" where
  "value_counts_normalized argsort_desc col =
     (let vs = List.map_filter id col;
          counts = map (\<lambda>v. (v, real (length (filter (\<lambda>w. w = v) vs)))) (drop_duplicates vs)
      in map (\<lambda>(v, c). (v, np_round 4 (c / real (length vs))))
           (sort_values_desc argsort_desc snd counts))"

text \<open>
  The orders table holds the purchase timestamp as text, and \<open>pd.to_datetime\<close> raises on
  a cell it cannot parse; the assignment has not happened then.
\<close>

definition calculate_order_status_distribution ::
    "(real list \<Rightarrow> nat list) \<Rightarrow> orders_frame \<Rightarrow> int \<Rightarrow>
     error + (string \<times> real) list \<times> orders_frame" where
  "calculate_order_status_distribution argsort_desc orders_data y =
     (case to_datetime (map o_order_purchase_timestamp (of_rows orders_data)) of
        Inl e \<Rightarrow> Inl e
      | Inr ts \<Rightarrow>
          (let years = map (map_option dt_year) ts;
               orders_data' = orders_data\<lparr>of_year := Some years\<rparr>;
               year_orders = map fst (filter (\<lambda>(r, yr). yr = Some y) (zip (of_rows orders_data') years))
           in Inr (value_counts_normalized argsort_desc (map o_order_status year_orders),
                   orders_data')))"

section \<open>business\_metrics.py: the summary\<close>

text \<open>
  \<open>generate_business_summary\<close> copies two numbers and formats the others as text. The
  text of a float with a number of decimals, Python's \<open>format(x, '.nf')\<close>, is a parameter,
  \<open>fmt\<close>.
\<close>

record revenue_summary_dict =
  current_revenue :: real
  revenue_growth :: string

record order_summary_dict =
  current_orders :: int
  current_aov :: string
  order_growth :: string

record customer_experience_dict =
  avg_delivery_days_text :: string
  avg_satisfaction :: string

record business_summary =
  revenue_summary :: revenue_summary_dict
  order_summary :: order_summary_dict
  customer_experience :: customer_experience_dict

definition generate_business_summary ::
    "(nat \<Rightarrow> fnum \<Rightarrow> string) \<Rightarrow> revenue_metrics \<Rightarrow> aov_metrics \<Rightarrow> order_volume_metrics \<Rightarrow>
     cx_metrics \<Rightarrow> business_summary" where
  "generate_business_summary fmt revenue_metrics aov_metrics order_metrics cx_metrics =
     \<lparr>revenue_summary =
        \<lparr>current_revenue = current_year_revenue revenue_metrics,
         revenue_growth = fmt 2 (Fin (revenue_growth_percent revenue_metrics)) @ ''%''\<rparr>,
      order_summary =
        \<lparr>current_orders = current_year_orders order_metrics,
         current_aov = ''$'' @ fmt 2 (current_year_aov aov_metrics),
         order_growth = fmt 2 (Fin (order_growth_percent order_metrics)) @ ''%''\<rparr>,
      customer_experience =
        \<lparr>avg_delivery_days_text = fmt 1 (avg_delivery_days cx_metrics) @ '' days'',
         avg_satisfaction = fmt 2 (avg_review_score cx_metrics) @ ''/5.0''\<rparr>\<rparr>"

section \<open>business\_metrics.py: the calls, on the caller's tables\<close>

text \<open>
  Python passes tables by reference: what a function does to a parameter, it does to
  the caller's object. For the effect of a call on its inputs, the tables of the caller
  are kept in a store, a table per reference, and a call takes the references of its
  arguments and the store, and returns its result, or the error it raises, with the
  store it leaves. The frames a function builds on the way are new objects that only
  the function holds; they are values of the model and not in the store.

  A reference that holds no table of the schema the parameter is read with is outside
  the model of the tables: the call is modelled as failing at its first read of it.
\<close>

type_synonym ref = nat

datatype table =
    SalesTable sales_frame
  | OrdersTable orders_frame
  | ProductsTable "product list"
  | CustomersTable "customer list"
  | ReviewsTable "review list"

type_synonym store = "ref \<Rightarrow> table option"

definition read_sales :: "store \<Rightarrow> ref \<Rightarrow> error + sales_frame" where
  "read_sales \<sigma> r = (case \<sigma> r of Some (SalesTable f) \<Rightarrow> Inr f | _ \<Rightarrow> Inl (KeyError ''sales_data''))"

definition read_orders :: "store \<Rightarrow> ref \<Rightarrow> error + orders_frame" where
  "read_orders \<sigma> r = (case \<sigma> r of Some (OrdersTable f) \<Rightarrow> Inr f | _ \<Rightarrow> Inl (KeyError ''orders_data''))"

definition read_products :: "store \<Rightarrow> ref \<Rightarrow> error + product list" where
  "read_products \<sigma> r = (case \<sigma> r of Some (ProductsTable t) \<Rightarrow> Inr t | _ \<Rightarrow> Inl (KeyError ''products_data''))"

definition read_customers :: "store \<Rightarrow> ref \<Rightarrow> error + customer list" where
  "read_customers \<sigma> r = (case \<sigma> r of Some (CustomersTable t) \<Rightarrow> Inr t | _ \<Rightarrow> Inl (KeyError ''customers_data''))"

definition read_reviews :: "store \<Rightarrow> ref \<Rightarrow> error + review list" where
  "read_reviews \<sigma> r = (case \<sigma> r of Some (ReviewsTable t) \<Rightarrow> Inr t | _ \<Rightarrow> Inl (KeyError ''reviews_data''))"

definition calculate_revenue_metrics_call ::
    "ref \<Rightarrow> int \<Rightarrow> int \<Rightarrow> store \<Rightarrow> (error + revenue_metrics) \<times> store" where
  "calculate_revenue_metrics_call sales_data current_year previous_year \<sigma> =
     (case read_sales \<sigma> sales_data of
        Inl e \<Rightarrow> (Inl e, \<sigma>)
      | Inr f \<Rightarrow> (Inr (calculate_revenue_metrics (sf_rows f) current_year previous_year), \<sigma>))"

definition calculate_monthly_growth_call ::
    "ref \<Rightarrow> int \<Rightarrow> store \<Rightarrow> (error + (int \<times> fnum) list) \<times> store" where
  "calculate_monthly_growth_call sales_data y \<sigma> =
     (case read_sales \<sigma> sales_data of
        Inl e \<Rightarrow> (Inl e, \<sigma>)
      | Inr f \<Rightarrow> (Inr (calculate_monthly_growth (sf_rows f) y), \<sigma>))"

definition calculate_average_order_value_call ::
    "ref \<Rightarrow> int \<Rightarrow> int \<Rightarrow> store \<Rightarrow> (error + aov_metrics) \<times> store" where
  "calculate_average_order_value_call sales_data current_year previous_year \<sigma> =
     (case read_sales \<sigma> sales_data of
        Inl e \<Rightarrow> (Inl e, \<sigma>)
      | Inr f \<Rightarrow> (Inr (calculate_average_order_value (sf_rows f) current_year previous_year), \<sigma>))"

definition calculate_order_volume_metrics_call ::
    "ref \<Rightarrow> int \<Rightarrow> int \<Rightarrow> store \<Rightarrow> (error + order_volume_metrics) \<times> store" where
  "calculate_order_volume_metrics_call sales_data current_year previous_year \<sigma> =
     (case read_sales \<sigma> sales_data of
        Inl e \<Rightarrow> (Inl e, \<sigma>)
      | Inr f \<Rightarrow> (calculate_order_volume_metrics (sf_rows f) current_year previous_year, \<sigma>))"

definition calculate_product_category_performance_call ::
    "(real list \<Rightarrow> nat list) \<Rightarrow> ref \<Rightarrow> ref \<Rightarrow> store \<Rightarrow> (error + performance_row list) \<times> store" where
  "calculate_product_category_performance_call argsort_desc sales_data products_data \<sigma> =
     (case read_sales \<sigma> sales_data of
        Inl e \<Rightarrow> (Inl e, \<sigma>)
      | Inr f \<Rightarrow>
         (case read_products \<sigma> products_data of
            Inl e \<Rightarrow> (Inl e, \<sigma>)
          | Inr ps \<Rightarrow> (Inr (calculate_product_category_performance argsort_desc (sf_rows f) ps), \<sigma>)))"

definition calculate_geographic_performance_call ::
    "(real list \<Rightarrow> nat list) \<Rightarrow> ref \<Rightarrow> ref \<Rightarrow> ref \<Rightarrow> store \<Rightarrow>
     (error + performance_row list) \<times> store" where
  "calculate_geographic_performance_call argsort_desc sales_data orders_data customers_data \<sigma> =
     (case read_sales \<sigma> sales_data of
        Inl e \<Rightarrow> (Inl e, \<sigma>)
      | Inr f \<Rightarrow>
         (case read_orders \<sigma> orders_data of
            Inl e \<Rightarrow> (Inl e, \<sigma>)
          | Inr ords \<Rightarrow>
             (case read_customers \<sigma> customers_data of
                Inl e \<Rightarrow> (Inl e, \<sigma>)
              | Inr cs \<Rightarrow>
                 (Inr (calculate_geographic_performance argsort_desc (sf_rows f) (of_rows ords) cs),
                  \<sigma>))))"

text \<open>
  The assignment of the customer-experience function comes before the function reads
  the reviews: the store has the new column also when the call fails after it.
\<close>

definition calculate_customer_experience_metrics_call ::
    "ref \<Rightarrow> ref \<Rightarrow> store \<Rightarrow> (error + cx_metrics) \<times> store" where
  "calculate_customer_experience_metrics_call sales_data reviews_data \<sigma> =
     (case read_sales \<sigma> sales_data of
        Inl e \<Rightarrow> (Inl e, \<sigma>)
      | Inr f \<Rightarrow>
         (let \<sigma>' = \<sigma>(sales_data := Some (SalesTable (attach_delivery_speed f)))
          in case read_reviews \<sigma>' reviews_data of
               Inl e \<Rightarrow> (Inl e, \<sigma>')
             | Inr rs \<Rightarrow> (Inr (fst (calculate_customer_experience_metrics f rs)), \<sigma>')))"

definition calculate_order_status_distribution_call ::
    "(real list \<Rightarrow> nat list) \<Rightarrow> ref \<Rightarrow> int \<Rightarrow> store \<Rightarrow> (error + (string \<times> real) list) \<times> store" where
  "calculate_order_status_distribution_call argsort_desc orders_data y \<sigma> =
     (case read_orders \<sigma> orders_data of
        Inl e \<Rightarrow> (Inl e, \<sigma>)
      | Inr f \<Rightarrow>
         (case calculate_order_status_distribution argsort_desc f y of
            Inl e \<Rightarrow> (Inl e, \<sigma>)
          | Inr (shares, f') \<Rightarrow> (Inr shares, \<sigma>(orders_data := Some (OrdersTable f')))))"

text \<open>The classifier takes a number and the summary the four dictionaries: neither takes a table.\<close>

definition categorize_delivery_speed_call :: "int \<Rightarrow> store \<Rightarrow> string \<times> store" where
  "categorize_delivery_speed_call days \<sigma> = (categorize_delivery_speed days, \<sigma>)"

definition generate_business_summary_call ::
    "(nat \<Rightarrow> fnum \<Rightarrow> string) \<Rightarrow> revenue_metrics \<Rightarrow> aov_metrics \<Rightarrow> order_volume_metrics \<Rightarrow>
     cx_metrics \<Rightarrow> store \<Rightarrow> business_summary \<times> store" where
  "generate_business_summary_call fmt revenue_metrics aov_metrics order_metrics cx_metrics \<sigma> =
     (generate_business_summary fmt revenue_metrics aov_metrics order_metrics cx_metrics, \<sigma>)"

section \<open>data\_loader.py\<close>

text \<open>
  The session state of \<open>EcommerceDataLoader\<close>. \<open>raw_data\<close> is a dictionary that
  \<open>load_raw_data\<close> fills with at most the five tables of its file mapping: a table is
  \<open>None\<close> while its key is not in the dictionary. \<open>processed_data\<close> is never read or
  written after the constructor and is left out.
\<close>

record raw_tables =
  orders :: "order list option"
  order_items :: "order_item list option"
  products :: "product list option"
  customers :: "customer list option"
  reviews :: "review list option"

record loader =
  data_path :: string
  raw_data :: raw_tables

text \<open>
  \<open>clean_datetime_columns\<close> is called with the three date columns of the merged frame,
  which has all of them (\<open>col in df_copy.columns\<close> holds): each is converted.
\<close>

definition clean_datetime_columns :: "date_cell merged_row list \<Rightarrow> int option merged_row list" where
  "clean_datetime_columns df =
     map (\<lambda>r. \<lparr>order_id = order_id r, order_item_id = order_item_id r,
                product_id = product_id r, price = price r, freight_value = freight_value r,
                customer_id = customer_id r, order_status = order_status r,
                order_purchase_timestamp = to_datetime_coerce (order_purchase_timestamp r),
                order_delivered_customer_date = to_datetime_coerce (order_delivered_customer_date r),
                order_estimated_delivery_date = to_datetime_coerce (order_estimated_delivery_date r)\<rparr>) df"

text \<open>
  The timestamp column is passed as its accessor, so \<open>timestamp_col in df_copy.columns\<close>
  holds. The features of NaT are null.
\<close>

definition extract_time_features ::
    "int option merged_row list \<Rightarrow> (int option merged_row \<Rightarrow> int option) \<Rightarrow> featured_row list" where
  "extract_time_features df timestamp_col =
     map (\<lambda>r. merged_row.extend r
                 (featured_row.fields
                    (map_option dt_year (timestamp_col r))
                    (map_option dt_month (timestamp_col r))
                    (map_option dt_dayofweek (timestamp_col r))
                    (map_option dt_quarter (timestamp_col r)))) df"

definition prepare_sales_data :: "loader \<Rightarrow> string list option \<Rightarrow> error + sales_row list" where
  "prepare_sales_data self order_status_filter =
     (let status_filter = (case order_status_filter of None \<Rightarrow> [''delivered''] | Some f \<Rightarrow> f)
      in case order_items (raw_data self) of
           None \<Rightarrow> Inl (KeyError ''order_items'')
         | Some items \<Rightarrow>
            (case orders (raw_data self) of
               None \<Rightarrow> Inl (KeyError ''orders'')
             | Some ords \<Rightarrow>
                (let merged =
                       map (\<lambda>(i, ord).
                              \<lparr>order_id = oi_order_id i, order_item_id = oi_order_item_id i,
                               product_id = oi_product_id i, price = oi_price i,
                               freight_value = oi_freight_value i,
                               customer_id = o_customer_id ord, order_status = o_order_status ord,
                               order_purchase_timestamp = o_order_purchase_timestamp ord,
                               order_delivered_customer_date = o_order_delivered_customer_date ord,
                               order_estimated_delivery_date = o_order_estimated_delivery_date ord\<rparr>)
                         (merge_inner oi_order_id o_order_id items ords);
                     filtered = filter (\<lambda>r. isin (order_status r) status_filter) merged;
                     cleaned = clean_datetime_columns filtered;
                     featured = extract_time_features cleaned order_purchase_timestamp;
                     sales_data =
                       map (\<lambda>r. featured_row.extend r
                                   (sales_row.fields
                                      (case (order_delivered_customer_date r, order_purchase_timestamp r) of
                                         (Some d, Some p) \<Rightarrow> Some (timedelta_days (d - p))
                                       | _ \<Rightarrow> None))) featured
                 in Inr sales_data)))"

text \<open>
  Python's truth value of an optional integer: \<open>None\<close> and 0 are false.
\<close>

definition truthy :: "int option \<Rightarrow> bool" where
  "truthy x = (case x of None \<Rightarrow> False | Some n \<Rightarrow> n \<noteq> 0)"

text \<open>
  A date bound is given as text and compared as the timestamp pandas parses it to: it is
  modelled as that timestamp, and \<open>None\<close> stands for no bound (\<open>None\<close> or the empty
  string, which is false as well). A comparison with NaT is false.
\<close>

definition filter_by_date_range ::
    "'a featured_row_scheme list \<Rightarrow> int option \<Rightarrow> int option \<Rightarrow> int option \<Rightarrow> int option \<Rightarrow>
     ('a featured_row_scheme \<Rightarrow> int option) \<Rightarrow> 'a featured_row_scheme list" where
  "filter_by_date_range df start_date end_date yr mon timestamp_col =
     (let df_filtered = df;
          df_filtered =
            (case start_date of
               Some s \<Rightarrow> filter (\<lambda>r. case timestamp_col r of None \<Rightarrow> False | Some t \<Rightarrow> t \<ge> s) df_filtered
             | None \<Rightarrow> df_filtered);
          df_filtered =
            (case end_date of
               Some e \<Rightarrow> filter (\<lambda>r. case timestamp_col r of None \<Rightarrow> False | Some t \<Rightarrow> t \<le> e) df_filtered
             | None \<Rightarrow> df_filtered);
          df_filtered =
            (if truthy yr then filter (\<lambda>r. year r = yr) df_filtered else df_filtered);
          df_filtered =
            (if truthy mon \<and> truthy yr then filter (\<lambda>r. month r = mon) df_filtered else df_filtered)
      in df_filtered)"






section \<open>Sample tables\<close>

text \<open>A sales row with an order, a year, a month and a price; the other cells are null.\<close>

definition a_sale :: "string \<Rightarrow> int \<Rightarrow> int \<Rightarrow> real \<Rightarrow> sales_row" where
  "a_sale oid y m p =
     \<lparr>order_id = Some oid, order_item_id = Some 1, product_id = Some ''p1'', price = Some p,
      freight_value = None, customer_id = None, order_status = Some ''delivered'',
      order_purchase_timestamp = None, order_delivered_customer_date = None,
      order_estimated_delivery_date = None, year = Some y, month = Some m,
      day_of_week = None, quarter = None, delivery_days = None\<rparr>"

text \<open>A year whose only row is a refund, entered as a negative price.\<close>

definition refund_sales :: "sales_row list" where
  "refund_sales = [a_sale ''a'' 2023 1 10, a_sale ''b'' 2022 1 (- 5)]"

definition growing_sales :: "sales_row list" where
  "growing_sales =
     [a_sale ''a'' 2023 1 60, a_sale ''a'' 2023 1 40, a_sale ''b'' 2022 1 50, a_sale ''c'' 2023 2 20]"

text \<open>
  Stated from the spec (C5): a timedelta in whole days, the fractional day truncated
  toward zero.
\<close>

definition whole_days_truncated :: "int \<Rightarrow> int" where
  "whole_days_truncated delta =
     (if delta \<ge> 0 then delta div ns_per_day else - ((- delta) div ns_per_day))"

text \<open>
  A session with three orders of one item each: one delivered three days and an hour
  after the purchase, one whose delivery is dated an hour before its purchase, one
  canceled. Only the first has a review. 2023-01-01 is day 19358 of the epoch.
\<close>

definition jan1 :: int where "jan1 = 19358 * ns_per_day"
definition an_hour :: int where "an_hour = 3600000000000"

definition sample_orders :: "order list" where
  "sample_orders =
     [\<lparr>o_order_id = Some ''o1'', o_customer_id = Some ''c1'', o_order_status = Some ''delivered'',
       o_order_purchase_timestamp = Stamp jan1,
       o_order_delivered_customer_date = Stamp (jan1 + 3 * ns_per_day + an_hour),
       o_order_estimated_delivery_date = Unparsable ''soon''\<rparr>,
      \<lparr>o_order_id = Some ''o2'', o_customer_id = Some ''c2'', o_order_status = Some ''delivered'',
       o_order_purchase_timestamp = Stamp (jan1 + an_hour),
       o_order_delivered_customer_date = Stamp jan1,
       o_order_estimated_delivery_date = Null\<rparr>,
      \<lparr>o_order_id = Some ''o3'', o_customer_id = Some ''c1'', o_order_status = Some ''canceled'',
       o_order_purchase_timestamp = Stamp jan1,
       o_order_delivered_customer_date = Null,
       o_order_estimated_delivery_date = Null\<rparr>]"

definition sample_items :: "order_item list" where
  "sample_items =
     [\<lparr>oi_order_id = Some ''o1'', oi_order_item_id = Some 1, oi_product_id = Some ''p1'',
       oi_price = Some 100, oi_freight_value = Some 5\<rparr>,
      \<lparr>oi_order_id = Some ''o2'', oi_order_item_id = Some 1, oi_product_id = Some ''p2'',
       oi_price = Some 50, oi_freight_value = Some 5\<rparr>,
      \<lparr>oi_order_id = Some ''o3'', oi_order_item_id = Some 1, oi_product_id = Some ''p1'',
       oi_price = Some 70, oi_freight_value = None\<rparr>]"

definition sample_reviews :: "review list" where
  "sample_reviews = [\<lparr>rv_order_id = Some ''o1'', rv_review_score = Some 5\<rparr>]"

definition sample_loader :: loader where
  "sample_loader =
     \<lparr>data_path = ''ecommerce_data'',
      raw_data = \<lparr>orders = Some sample_orders, order_items = Some sample_items,
                  products = None, customers = None, reviews = Some sample_reviews\<rparr>\<rparr>"

definition sample_sale1 :: sales_row where
  "sample_sale1 =
     \<lparr>order_id = Some ''o1'', order_item_id = Some 1, product_id = Some ''p1'',
      price = Some 100, freight_value = Some 5, customer_id = Some ''c1'',
      order_status = Some ''delivered'',
      order_purchase_timestamp = Some jan1,
      order_delivered_customer_date = Some (jan1 + 3 * ns_per_day + an_hour),
      order_estimated_delivery_date = None,
      year = Some 2023, month = Some 1, day_of_week = Some 6, quarter = Some 1,
      delivery_days = Some 3\<rparr>"

definition sample_sale2 :: sales_row where
  "sample_sale2 =
     \<lparr>order_id = Some ''o2'', order_item_id = Some 1, product_id = Some ''p2'',
      price = Some 50, freight_value = Some 5, customer_id = Some ''c2'',
      order_status = Some ''delivered'',
      order_purchase_timestamp = Some (jan1 + an_hour),
      order_delivered_customer_date = Some jan1,
      order_estimated_delivery_date = None,
      year = Some 2023, month = Some 1, day_of_week = Some 6, quarter = Some 1,
      delivery_days = Some (- 1)\<rparr>"



definition unloaded_loader :: loader where
  "unloaded_loader =
     \<lparr>data_path = ''ecommerce_data'',
      raw_data = \<lparr>orders = None, order_items = Some sample_items,
                  products = None, customers = None, reviews = None\<rparr>\<rparr>"



text \<open>
  Stated from the spec (C1): the revenue, the orders and the average order value of a
  year, read off the sales table, and the growth in percent. The revenue of a year is
  the sum of the prices of its rows, a null price counting 0; its orders are the
  order ids of its rows that are not null; its average order value is the revenue of
  the rows that have an order id, divided by the number of orders, and NaN without one.
\<close>

definition price_or_zero :: "sales_row \<Rightarrow> real" where
  "price_or_zero r = (case price r of None \<Rightarrow> 0 | Some p \<Rightarrow> p)"

definition yearly_revenue :: "sales_row list \<Rightarrow> int \<Rightarrow> real" where
  "yearly_revenue sales_data y = (\<Sum>r\<leftarrow>sales_data. if year r = Some y then price_or_zero r else 0)"

definition yearly_orders :: "sales_row list \<Rightarrow> int \<Rightarrow> string set" where
  "yearly_orders sales_data y = {oid. \<exists>r\<in>set sales_data. year r = Some y \<and> order_id r = Some oid}"

definition yearly_order_revenue :: "sales_row list \<Rightarrow> int \<Rightarrow> real" where
  "yearly_order_revenue sales_data y =
     (\<Sum>r\<leftarrow>sales_data. if year r = Some y \<and> order_id r \<noteq> None then price_or_zero r else 0)"

definition yearly_aov :: "sales_row list \<Rightarrow> int \<Rightarrow> fnum" where
  "yearly_aov sales_data y =
     (if yearly_orders sales_data y = {} then NaN
      else Fin (yearly_order_revenue sales_data y / real (card (yearly_orders sales_data y))))"

definition growth_percent :: "real \<Rightarrow> real \<Rightarrow> real" where
  "growth_percent current previous = (current - previous) / previous * 100"

text \<open>A column in descending order, equal values allowed.\<close>

definition descending :: "real list \<Rightarrow> bool" where
  "descending xs = sorted_wrt (\<lambda>a b. a \<ge> b) xs"

text \<open>
  Stated from the spec (C3): the rows in descending order of a key, rows with equal keys
  in the order they have in the input.
\<close>

definition stable_descending :: "('r \<Rightarrow> real) \<Rightarrow> 'r list \<Rightarrow> 'r list" where
  "stable_descending key df = sort_key (\<lambda>r. - key r) df"

text \<open>
  The groups of the two performance tables, read off the input tables: the categories
  (states) that the join reaches, and the prices of the joined rows of one of them, in
  the order of the join.
\<close>

definition category_prices :: "sales_row list \<Rightarrow> product list \<Rightarrow> string \<Rightarrow> real option list" where
  "category_prices sales_data products_data c =
     concat (map (\<lambda>r. map (\<lambda>p. price r)
                          (filter (\<lambda>p. p_product_id p = product_id r \<and>
                                       p_product_category_name p = Some c) products_data))
               sales_data)"

definition joined_categories :: "sales_row list \<Rightarrow> product list \<Rightarrow> string set" where
  "joined_categories sales_data products_data =
     {c. \<exists>r\<in>set sales_data. \<exists>p\<in>set products_data.
           p_product_id p = product_id r \<and> p_product_category_name p = Some c}"

definition state_prices ::
    "sales_row list \<Rightarrow> order list \<Rightarrow> customer list \<Rightarrow> string \<Rightarrow> real option list" where
  "state_prices sales_data orders_data customers_data st =
     concat (map (\<lambda>r. concat (map (\<lambda>ord. map (\<lambda>c. price r)
                                          (filter (\<lambda>c. c_customer_id c = o_customer_id ord \<and>
                                                       c_customer_state c = Some st) customers_data))
                                (filter (\<lambda>ord. o_order_id ord = order_id r) orders_data)))
               sales_data)"

definition joined_states :: "sales_row list \<Rightarrow> order list \<Rightarrow> customer list \<Rightarrow> string set" where
  "joined_states sales_data orders_data customers_data =
     {st. \<exists>r\<in>set sales_data. \<exists>ord\<in>set orders_data. \<exists>c\<in>set customers_data.
            o_order_id ord = order_id r \<and> c_customer_id c = o_customer_id ord \<and>
            c_customer_state c = Some st}"

text \<open>
  What holds of a table of one row per group after it is sorted by revenue: descending
  revenues, the same groups, each once, and the same rows.
\<close>

definition sorted_table ::
    "(real list \<Rightarrow> nat list) \<Rightarrow> performance_row list \<Rightarrow> string set \<Rightarrow> (performance_row \<Rightarrow> bool) \<Rightarrow> bool" where
  "sorted_table a T K P =
     (descending (map total_revenue (sort_values_desc a total_revenue T)) \<and>
      distinct (map group_name (sort_values_desc a total_revenue T)) \<and>
      set (map group_name (sort_values_desc a total_revenue T)) = K \<and>
      (\<forall>row\<in>set (sort_values_desc a total_revenue T). P row))"

text \<open>
  Five sales of five products, one per category \<open>k0\<close> to \<open>k4\<close>, with the revenues 10,
  20, 30, 10, 20: two pairs of categories with equal revenue.
\<close>

definition tie_sales :: "sales_row list" where
  "tie_sales =
     [(a_sale ''a'' 2023 1 10)\<lparr>product_id := Some ''q0''\<rparr>,
      (a_sale ''b'' 2023 1 20)\<lparr>product_id := Some ''q1''\<rparr>,
      (a_sale ''c'' 2023 1 30)\<lparr>product_id := Some ''q2''\<rparr>,
      (a_sale ''d'' 2023 1 10)\<lparr>product_id := Some ''q3''\<rparr>,
      (a_sale ''e'' 2023 1 20)\<lparr>product_id := Some ''q4''\<rparr>]"

definition tie_products :: "product list" where
  "tie_products =
     [\<lparr>p_product_id = Some ''q0'', p_product_category_name = Some ''k0''\<rparr>,
      \<lparr>p_product_id = Some ''q1'', p_product_category_name = Some ''k1''\<rparr>,
      \<lparr>p_product_id = Some ''q2'', p_product_category_name = Some ''k2''\<rparr>,
      \<lparr>p_product_id = Some ''q3'', p_product_category_name = Some ''k3''\<rparr>,
      \<lparr>p_product_id = Some ''q4'', p_product_category_name = Some ''k4''\<rparr>]"

text \<open>
  The two date bounds of \<open>filter_by_date_range\<close> as conditions on a timestamp cell: a
  bound that is not given holds of every cell, a given bound of no NaT cell.
\<close>

definition in_range_from :: "int option \<Rightarrow> int option \<Rightarrow> bool" where
  "in_range_from start_date t =
     (case start_date of None \<Rightarrow> True
      | Some s \<Rightarrow> (case t of None \<Rightarrow> False | Some t \<Rightarrow> s \<le> t))"

definition in_range_to :: "int option \<Rightarrow> int option \<Rightarrow> bool" where
  "in_range_to end_date t =
     (case end_date of None \<Rightarrow> True
      | Some e \<Rightarrow> (case t of None \<Rightarrow> False | Some t \<Rightarrow> t \<le> e))"

text \<open>
  Stated from the spec (C4): the rows satisfying all supplied filters, where a filter is
  supplied when its argument is given, and the month filter counts only with a year.
\<close>

definition filter_by_date_range_spec ::
    "'a featured_row_scheme list \<Rightarrow> int option \<Rightarrow> int option \<Rightarrow> int option \<Rightarrow> int option \<Rightarrow>
     ('a featured_row_scheme \<Rightarrow> int option) \<Rightarrow> 'a featured_row_scheme list" where
  "filter_by_date_range_spec df start_date end_date yr mon timestamp_col =
     filter (\<lambda>r. in_range_from start_date (timestamp_col r) \<and>
                 in_range_to end_date (timestamp_col r) \<and>
                 (yr \<noteq> None \<longrightarrow> year r = yr) \<and>
                 (mon \<noteq> None \<and> yr \<noteq> None \<longrightarrow> month r = mon)) df"

text \<open>
  Stated from the spec (C8): the sum of the prices of the rows of a year and a month.
\<close>

definition monthly_revenue_of :: "sales_row list \<Rightarrow> int \<Rightarrow> int \<Rightarrow> real" where
  "monthly_revenue_of sales_data y m =
     sum_skipna (map price (filter (\<lambda>r. year r = Some y \<and> month r = Some m) sales_data))"

text \<open>The series \<open>monthly_revenue\<close> of \<open>calculate_monthly_growth\<close>, before \<open>pct_change\<close>.\<close>

definition monthly_revenue :: "sales_row list \<Rightarrow> int \<Rightarrow> (int \<times> real) list" where
  "monthly_revenue sales_data y =
     map (\<lambda>(m, g). (m, sum_skipna (map price g)))
       (groupby month (filter (\<lambda>r. year r = Some y) sales_data))"

text \<open>
  The cells that the two assigning functions compute: the delivery speed of a sales row,
  and the year of the purchase of an order.
\<close>

definition delivery_speed :: "sales_row \<Rightarrow> int option" where
  "delivery_speed r =
     (case (order_delivered_customer_date r, order_purchase_timestamp r) of
        (Some d, Some p) \<Rightarrow> Some (timedelta_days (d - p))
      | _ \<Rightarrow> None)"

definition purchase_year :: "order \<Rightarrow> int option" where
  "purchase_year ord = map_option dt_year (to_datetime_coerce (o_order_purchase_timestamp ord))"

text \<open>The sample session's orders and sales as frames that have no attached column yet.\<close>

definition sample_orders_frame :: orders_frame where
  "sample_orders_frame = \<lparr>of_rows = sample_orders, of_year = None\<rparr>"

definition sample_sales_frame :: sales_frame where
  "sample_sales_frame = \<lparr>sf_rows = [sample_sale1, sample_sale2], sf_delivery_speed_days = None\<rparr>"

text \<open>A store with the sample sales, orders and reviews at the references 0, 1 and 2.\<close>

definition sample_store :: store where
  "sample_store =
     (\<lambda>r. None)(0 := Some (SalesTable sample_sales_frame),
                 1 := Some (OrdersTable sample_orders_frame),
                 2 := Some (ReviewsTable sample_reviews))"

section \<open>Properties of the growth metrics\<close>

lemma year_sale [simp]: "year (a_sale oid y m p) = Some y"
  by (simp add: a_sale_def)

lemma month_sale [simp]: "month (a_sale oid y m p) = Some m"
  by (simp add: a_sale_def)

lemma price_sale [simp]: "price (a_sale oid y m p) = Some p"
  by (simp add: a_sale_def)

lemma order_id_sale [simp]: "order_id (a_sale oid y m p) = Some oid"
  by (simp add: a_sale_def)

lemma groupby_Nil [simp]: "groupby key [] = []"
  by (simp add: groupby_def List.map_filter_simps)

lemma sum_skipna_prices:
  "sum_skipna (map price df) = (\<Sum>r\<leftarrow>df. price_or_zero r)"
proof (induction df)
  case Nil
  then show ?case by (simp add: sum_skipna_def List.map_filter_simps)
next
  case (Cons r df)
  then show ?case
    by (cases "price r") (simp_all add: sum_skipna_def List.map_filter_simps price_or_zero_def)
qed

lemma sum_list_filter_if:
  "(\<Sum>r\<leftarrow>filter P df. f r) = (\<Sum>r\<leftarrow>df. if P r then f r else (0::real))"
  by (induction df) simp_all

lemma revenue_of_year:
  "sum_skipna (map price (filter (\<lambda>r. year r = Some y) s)) = yearly_revenue s y"
  by (simp add: sum_skipna_prices sum_list_filter_if yearly_revenue_def)

lemma set_map_filter_id: "set (List.map_filter id xs) = {x. Some x \<in> set xs}"
proof (induction xs)
  case Nil
  then show ?case by (simp add: List.map_filter_simps)
next
  case (Cons x xs)
  then show ?case by (cases x) (auto simp add: List.map_filter_simps)
qed

lemma orders_of_year:
  "set (List.map_filter id (map order_id (filter (\<lambda>r. year r = Some y) s))) = yearly_orders s y"
  by (auto simp add: set_map_filter_id yearly_orders_def image_iff)

lemma nunique_orders:
  "nunique (map order_id (filter (\<lambda>r. year r = Some y) s)) = card (yearly_orders s y)"
  by (simp add: nunique_def length_remdups_card_conv orders_of_year)

lemma sum_over_groups:
  assumes "finite K" "\<forall>r\<in>set df. \<forall>k. key r = Some k \<longrightarrow> k \<in> K"
  shows "(\<Sum>k\<in>K. \<Sum>r\<leftarrow>filter (\<lambda>r. key r = Some k) df. f r) =
         (\<Sum>r\<leftarrow>df. if key r \<noteq> None then f r else (0::real))"
  using assms(2)
proof (induction df)
  case Nil
  then show ?case by simp
next
  case (Cons r df)
  then have IH: "(\<Sum>k\<in>K. \<Sum>r\<leftarrow>filter (\<lambda>r. key r = Some k) df. f r) =
         (\<Sum>r\<leftarrow>df. if key r \<noteq> None then f r else 0)"
    by simp
  show ?case
  proof (cases "key r")
    case None
    with IH show ?thesis by simp
  next
    case (Some k0)
    with Cons.prems have k0: "k0 \<in> K" by simp
    have "(\<Sum>k\<in>K. \<Sum>r\<leftarrow>filter (\<lambda>r. key r = Some k) (r # df). f r)
            = (\<Sum>k\<in>K. (if k = k0 then f r else 0) + (\<Sum>r\<leftarrow>filter (\<lambda>r. key r = Some k) df. f r))"
      using Some by (intro sum.cong) auto
    also have "\<dots> = (\<Sum>k\<in>K. if k = k0 then f r else 0)
                      + (\<Sum>k\<in>K. \<Sum>r\<leftarrow>filter (\<lambda>r. key r = Some k) df. f r)"
      by (simp add: sum.distrib)
    also have "(\<Sum>k\<in>K. if k = k0 then f r else 0) = f r"
      using assms(1) k0 by simp
    finally show ?thesis using IH Some by simp
  qed
qed

lemma groupby_keys: "map fst (groupby key df) = sort (remdups (List.map_filter key df))"
  by (simp add: groupby_def comp_def)

lemma set_map_filter_key: "set (List.map_filter key df) = {k. \<exists>r\<in>set df. key r = Some k}"
proof (induction df)
  case Nil
  then show ?case by (simp add: List.map_filter_simps)
next
  case (Cons r df)
  then show ?case
    by (cases "key r") (auto simp add: List.map_filter_simps)
qed

lemma order_totals_mean_spec:
  "order_totals_mean (filter (\<lambda>r. year r = Some y) s) = yearly_aov s y"
proof -
  let ?df = "filter (\<lambda>r. year r = Some y) s"
  let ?keys = "sort (remdups (List.map_filter order_id ?df))"
  have keys: "set ?keys = yearly_orders s y"
    by (auto simp add: set_map_filter_key yearly_orders_def)
  have dist: "distinct ?keys" by simp
  have totals: "map (\<lambda>(k, g). Some (sum_skipna (map price g))) (groupby order_id ?df)
        = map (\<lambda>k. Some (\<Sum>r\<leftarrow>filter (\<lambda>r. order_id r = Some k) ?df. price_or_zero r)) ?keys"
    by (simp add: groupby_def sum_skipna_prices comp_def)
  have mf: "List.map_filter id (map (\<lambda>k. Some (g k)) ks) = map g ks" for g :: "string \<Rightarrow> real" and ks
    by (induction ks) (simp_all add: List.map_filter_simps)
  have sum: "sum_list (map (\<lambda>k. \<Sum>r\<leftarrow>filter (\<lambda>r. order_id r = Some k) ?df. price_or_zero r) ?keys)
        = yearly_order_revenue s y"
  proof -
    have "sum_list (map (\<lambda>k. \<Sum>r\<leftarrow>filter (\<lambda>r. order_id r = Some k) ?df. price_or_zero r) ?keys)
          = (\<Sum>k\<in>set ?keys. \<Sum>r\<leftarrow>filter (\<lambda>r. order_id r = Some k) ?df. price_or_zero r)"
      using dist by (simp add: sum_list_distinct_conv_sum_set)
    also have "\<dots> = (\<Sum>r\<leftarrow>?df. if order_id r \<noteq> None then price_or_zero r else 0)"
    proof (rule sum_over_groups)
      show "finite (set ?keys)" by (rule finite_set)
      show "\<forall>r\<in>set ?df. \<forall>k. order_id r = Some k \<longrightarrow> k \<in> set ?keys"
        by (auto simp add: set_map_filter_key)
    qed
    also have "\<dots> = yearly_order_revenue s y"
      unfolding sum_list_filter_if yearly_order_revenue_def
      by (intro arg_cong [where f = sum_list] map_cong refl) auto
    finally show ?thesis .
  qed
  have len: "length ?keys = card (yearly_orders s y)"
    using dist keys by (metis distinct_card)
  have empty: "?keys = [] \<longleftrightarrow> yearly_orders s y = {}"
    using keys by (metis set_empty)
  show ?thesis
    unfolding order_totals_mean_def totals mean_skipna_def mf Let_def
    using sum len empty by (simp add: yearly_aov_def)
qed

text \<open>
  C1, as the spec states it, fails: a previous-year revenue that is not 0 does not always
  give the growth formula. A year whose rows sum to a negative revenue (here -5) fails the
  guard \<open>previous_revenue > 0\<close>, and the growth is 0 where the formula gives -300.
\<close>

theorem growth_guard_counterexample:
  "previous_year_revenue (calculate_revenue_metrics refund_sales 2023 2022) \<noteq> 0 \<and>
   revenue_growth_percent (calculate_revenue_metrics refund_sales 2023 2022) \<noteq>
     (current_year_revenue (calculate_revenue_metrics refund_sales 2023 2022)
        - previous_year_revenue (calculate_revenue_metrics refund_sales 2023 2022))
       / previous_year_revenue (calculate_revenue_metrics refund_sales 2023 2022) * 100"
  by (simp add: calculate_revenue_metrics_def refund_sales_def sum_skipna_def
      List.map_filter_simps)

text \<open>
  C1, amended: for every sales table and every pair of years, each of the three functions
  returns its dictionary, none raising a division error. The current and the previous
  value in it are the revenue, the average order value, the number of distinct orders
  of the two years in the table. The growth is 0 whenever the previous value is not
  greater than 0 (zero, negative, or NaN for the average order value), and
  \<open>(current - previous) / previous * 100\<close> when it is greater than 0. A number of orders
  is never negative, so for the order volume the growth is 0 when the previous number is
  0 and the formula otherwise.
\<close>

theorem growth_zero_guard:
  "calculate_revenue_metrics s cy py =
     \<lparr>current_year_revenue = yearly_revenue s cy,
      previous_year_revenue = yearly_revenue s py,
      revenue_growth_percent =
        (if yearly_revenue s py > 0
         then growth_percent (yearly_revenue s cy) (yearly_revenue s py) else 0)\<rparr> \<and>
   calculate_average_order_value s cy py =
     \<lparr>current_year_aov = yearly_aov s cy,
      previous_year_aov = yearly_aov s py,
      aov_growth_percent =
        (if fgt (yearly_aov s py) 0
         then fscale (fdiv (fsub (yearly_aov s cy) (yearly_aov s py)) (yearly_aov s py)) 100
         else Fin 0)\<rparr> \<and>
   calculate_order_volume_metrics s cy py =
     Inr \<lparr>current_year_orders = int (card (yearly_orders s cy)),
          previous_year_orders = int (card (yearly_orders s py)),
          order_growth_percent =
            (if card (yearly_orders s py) = 0 then 0
             else growth_percent (real (card (yearly_orders s cy))) (real (card (yearly_orders s py))))\<rparr>"
  by (simp add: calculate_revenue_metrics_def calculate_average_order_value_def
      calculate_order_volume_metrics_def Let_def revenue_of_year order_totals_mean_spec
      nunique_orders py_truediv_def growth_percent_def)

lemma growth_sample:
  "calculate_revenue_metrics growing_sales 2023 2022 =
     \<lparr>current_year_revenue = 120, previous_year_revenue = 50, revenue_growth_percent = 140\<rparr>"
  "calculate_average_order_value growing_sales 2023 2022 =
     \<lparr>current_year_aov = Fin 60, previous_year_aov = Fin 50, aov_growth_percent = Fin 20\<rparr>"
  "calculate_order_volume_metrics growing_sales 2023 2022 =
     Inr \<lparr>current_year_orders = 2, previous_year_orders = 1, order_growth_percent = 100\<rparr>"
  "calculate_revenue_metrics growing_sales 2023 2021 =
     \<lparr>current_year_revenue = 120, previous_year_revenue = 0, revenue_growth_percent = 0\<rparr>"
  "calculate_order_volume_metrics growing_sales 2023 2021 =
     Inr \<lparr>current_year_orders = 2, previous_year_orders = 0, order_growth_percent = 0\<rparr>"
  by code_simp+

theorem growth_zero_guard_witness:
  "yearly_revenue growing_sales 2023 = 120 \<and>
   yearly_revenue growing_sales 2022 = 50 \<and>
   revenue_growth_percent (calculate_revenue_metrics growing_sales 2023 2022) = 140 \<and>
   yearly_aov growing_sales 2023 = Fin 60 \<and>
   yearly_aov growing_sales 2022 = Fin 50 \<and>
   aov_growth_percent (calculate_average_order_value growing_sales 2023 2022) = Fin 20 \<and>
   card (yearly_orders growing_sales 2023) = 2 \<and>
   card (yearly_orders growing_sales 2022) = 1 \<and>
   calculate_order_volume_metrics growing_sales 2023 2022 =
     Inr \<lparr>current_year_orders = 2, previous_year_orders = 1, order_growth_percent = 100\<rparr> \<and>
   yearly_revenue growing_sales 2021 = 0 \<and>
   revenue_growth_percent (calculate_revenue_metrics growing_sales 2023 2021) = 0 \<and>
   card (yearly_orders growing_sales 2021) = 0 \<and>
   calculate_order_volume_metrics growing_sales 2023 2021 =
     Inr \<lparr>current_year_orders = 2, previous_year_orders = 0, order_growth_percent = 0\<rparr>"
  using growth_zero_guard [of growing_sales 2023 2022] growth_zero_guard [of growing_sales 2023 2021]
    growth_sample
  by simp

text \<open>
  C10: when no row of the sales table has the previous year,
  \<open>calculate_average_order_value\<close> returns (the function has no failing path): the
  previous-year average is the mean of no order, NaN, which fails the guard \<open>> 0\<close>, so
  the growth is 0 while \<open>previous_year_aov\<close> is NaN, not 0.
\<close>

theorem aov_without_previous_rows:
  assumes "\<forall>r\<in>set s. year r \<noteq> Some py"
  shows "previous_year_aov (calculate_average_order_value s cy py) = NaN \<and>
         aov_growth_percent (calculate_average_order_value s cy py) = Fin 0"
proof -
  from assms have "filter (\<lambda>r. year r = Some py) s = []"
    by (simp add: filter_empty_conv)
  then have "order_totals_mean (filter (\<lambda>r. year r = Some py) s) = NaN"
    by (simp add: order_totals_mean_def mean_skipna_def List.map_filter_simps)
  then show ?thesis
    by (simp add: calculate_average_order_value_def Let_def)
qed

theorem aov_without_previous_rows_witness:
  "Some 2021 \<notin> set (map year growing_sales) \<and>
   previous_year_aov (calculate_average_order_value growing_sales 2023 2021) = NaN \<and>
   aov_growth_percent (calculate_average_order_value growing_sales 2023 2021) = Fin 0"
proof -
  have h: "\<forall>r\<in>set growing_sales. year r \<noteq> Some 2021"
    by (simp add: growing_sales_def)
  from aov_without_previous_rows [OF h, of 2023] h show ?thesis by auto
qed

section \<open>Properties of the delivery-speed classifier\<close>

text \<open>
  C9: for every integer \<open>days\<close>, \<open>categorize_delivery_speed\<close> answers "1-3 days" up to 3,
  "4-7 days" above 3 and up to 7, and "8+ days" above 7; at 3, 4 and 8 it answers the
  three buckets in turn. It is a function of \<open>days\<close> alone: the source reads and writes
  nothing else.
\<close>

theorem categorize_delivery_speed_buckets:
  "(days \<le> 3 \<longrightarrow> categorize_delivery_speed days = ''1-3 days'') \<and>
   (3 < days \<and> days \<le> 7 \<longrightarrow> categorize_delivery_speed days = ''4-7 days'') \<and>
   (7 < days \<longrightarrow> categorize_delivery_speed days = ''8+ days'') \<and>
   categorize_delivery_speed 3 = ''1-3 days'' \<and>
   categorize_delivery_speed 4 = ''4-7 days'' \<and>
   categorize_delivery_speed 8 = ''8+ days''"
  by (simp add: categorize_delivery_speed_def)

theorem categorize_delivery_speed_buckets_witness:
  "categorize_delivery_speed (- 2) = ''1-3 days'' \<and>
   categorize_delivery_speed 5 = ''4-7 days'' \<and>
   categorize_delivery_speed 11 = ''8+ days''"
  using categorize_delivery_speed_buckets [of "- 2"] categorize_delivery_speed_buckets [of 5]
    categorize_delivery_speed_buckets [of 11]
  by simp

section \<open>Properties of the loader\<close>

lemma prepare_sample: "prepare_sales_data sample_loader None = Inr [sample_sale1, sample_sale2]"
  by code_simp

text \<open>
  C2: in every session state in which \<open>order_items\<close> or \<open>orders\<close> is not loaded,
  \<open>prepare_sales_data\<close> fails, and with the error of the missing table only: the
  \<open>KeyError\<close> that the lookup in \<open>raw_data\<close> raises (the spec's MissingDataError), for
  \<open>order_items\<close> when that is missing, since it is looked up first, for \<open>orders\<close>
  otherwise.
\<close>

theorem prepare_sales_data_missing_table:
  assumes "order_items (raw_data self) = None \<or> orders (raw_data self) = None"
  shows "prepare_sales_data self f =
           Inl (KeyError (if order_items (raw_data self) = None then ''order_items'' else ''orders''))"
  using assms by (auto simp add: prepare_sales_data_def Let_def split: option.splits)

theorem prepare_sales_data_missing_table_witness:
  "orders (raw_data unloaded_loader) = None \<and>
   prepare_sales_data unloaded_loader None = Inl (KeyError ''orders'')"
proof -
  have h: "order_items (raw_data unloaded_loader) = None \<or> orders (raw_data unloaded_loader) = None"
    by (simp add: unloaded_loader_def)
  from prepare_sales_data_missing_table [OF h, of None] show ?thesis
    by (simp add: unloaded_loader_def)
qed

text \<open>With both tables loaded the function returns a sales table.\<close>

lemma prepare_sales_data_loaded:
  assumes "order_items (raw_data self) = Some items" "orders (raw_data self) = Some ords"
  shows "\<exists>sales. prepare_sales_data self f = Inr sales"
  using assms by (simp add: prepare_sales_data_def Let_def)

lemma floor_days_nonneg:
  assumes "0 \<le> delta"
  shows "timedelta_days delta = whole_days_truncated delta"
  using assms by (simp add: timedelta_days_def whole_days_truncated_def)

lemma floor_days_within_a_day:
  assumes "0 \<le> delta" "delta < ns_per_day"
  shows "timedelta_days delta = 0"
  using assms by (simp add: timedelta_days_def)

lemma delivery_days_of_row:
  assumes "prepare_sales_data self f = Inr sales" "r \<in> set sales"
  shows "delivery_days r =
           (case (order_delivered_customer_date r, order_purchase_timestamp r) of
              (Some d, Some p) \<Rightarrow> Some (timedelta_days (d - p))
            | _ \<Rightarrow> None)"
  using assms
  by (auto simp add: prepare_sales_data_def Let_def featured_row.defs sales_row.defs
      split: option.splits)

text \<open>
  C5, as the spec states it, fails: the second order of the sample session is dated as
  delivered an hour before its purchase, and its \<open>delivery_days\<close> is -1, where
  truncation toward zero gives 0.
\<close>

theorem early_delivery_counterexample:
  "prepare_sales_data sample_loader None = Inr [sample_sale1, sample_sale2] \<and>
   order_purchase_timestamp sample_sale2 = Some (jan1 + an_hour) \<and>
   order_delivered_customer_date sample_sale2 = Some jan1 \<and>
   delivery_days sample_sale2 = Some (- 1) \<and>
   whole_days_truncated (jan1 - (jan1 + an_hour)) = 0"
  using prepare_sample
  by (simp add: sample_sale2_def whole_days_truncated_def an_hour_def ns_per_day_def)

text \<open>
  C5, amended: for every row of the sales table with both dates present,
  \<open>delivery_days\<close> is the difference delivered - purchase in whole days, rounded down
  (toward minus infinity). For a delivery that is not before its purchase this is the
  truncation toward zero, and a delivery within 24 hours after its purchase has 0 days.
\<close>

theorem delivery_days_floor:
  assumes "prepare_sales_data self f = Inr sales" "r \<in> set sales"
    and "order_purchase_timestamp r = Some p" "order_delivered_customer_date r = Some d"
  shows "delivery_days r = Some ((d - p) div ns_per_day) \<and>
         (p \<le> d \<longrightarrow> delivery_days r = Some (whole_days_truncated (d - p))) \<and>
         (p \<le> d \<and> d - p < ns_per_day \<longrightarrow> delivery_days r = Some 0)"
proof -
  from delivery_days_of_row [OF assms(1,2)] assms(3,4)
  have eq: "delivery_days r = Some (timedelta_days (d - p))" by simp
  then show ?thesis
    using floor_days_nonneg [of "d - p"] floor_days_within_a_day [of "d - p"]
    by (simp add: timedelta_days_def)
qed

theorem delivery_days_floor_witness:
  "prepare_sales_data sample_loader None = Inr [sample_sale1, sample_sale2] \<and>
   delivery_days sample_sale1 = Some 3 \<and> delivery_days sample_sale2 = Some (- 1)"
proof -
  have 1: "sample_sale1 \<in> set [sample_sale1, sample_sale2]"
    and 2: "sample_sale2 \<in> set [sample_sale1, sample_sale2]" by simp_all
  have "delivery_days sample_sale1 = Some ((jan1 + 3 * ns_per_day + an_hour - jan1) div ns_per_day)"
    using delivery_days_floor [OF prepare_sample 1, of jan1 "jan1 + 3 * ns_per_day + an_hour"]
    by (simp add: sample_sale1_def)
  moreover have "delivery_days sample_sale2 = Some ((jan1 - (jan1 + an_hour)) div ns_per_day)"
    using delivery_days_floor [OF prepare_sample 2, of "jan1 + an_hour" jan1]
    by (simp add: sample_sale2_def)
  ultimately show ?thesis
    using prepare_sample by (simp add: an_hour_def ns_per_day_def)
qed











section \<open>Properties of the date filter\<close>

text \<open>
  C4, as the spec states it, fails: a year filter that is supplied as 0 is not applied,
  because the source tests \<open>if year:\<close> and 0 is false. The code returns every row where
  the exact match with the year 0 keeps none.
\<close>

theorem year_zero_counterexample:
  "filter_by_date_range growing_sales None None (Some 0) None order_purchase_timestamp = growing_sales \<and>
   filter_by_date_range_spec growing_sales None None (Some 0) None order_purchase_timestamp = []"
  by (simp add: filter_by_date_range_def filter_by_date_range_spec_def truthy_def growing_sales_def
      in_range_from_def in_range_to_def)

text \<open>
  C4, amended: for every input table, \<open>filter_by_date_range\<close> returns exactly the input
  rows, in their order, that satisfy all of its filters that are given and not false in
  Python: an inclusive lower and an inclusive upper bound on the timestamp, an exact
  match of the year when the year is not 0, and an exact match of the month when the
  month is not 0 and a year other than 0 is given. A month filter without such a year
  changes nothing. Whenever neither the year nor the month is 0 this is the spec's
  conjunction of the supplied filters.
\<close>

theorem filter_by_date_range_conjunctive:
  "filter_by_date_range df start_date end_date yr mon timestamp_col =
     filter (\<lambda>r. in_range_from start_date (timestamp_col r) \<and>
                 in_range_to end_date (timestamp_col r) \<and>
                 (truthy yr \<longrightarrow> year r = yr) \<and>
                 (truthy mon \<and> truthy yr \<longrightarrow> month r = mon)) df \<and>
   (\<not> truthy yr \<longrightarrow>
      filter_by_date_range df start_date end_date yr mon timestamp_col =
      filter_by_date_range df start_date end_date yr None timestamp_col) \<and>
   (yr \<noteq> Some 0 \<and> mon \<noteq> Some 0 \<longrightarrow>
      filter_by_date_range df start_date end_date yr mon timestamp_col =
      filter_by_date_range_spec df start_date end_date yr mon timestamp_col)"
proof -
  have truthy_iff: "truthy x \<longleftrightarrow> x \<noteq> None" if "x \<noteq> Some 0" for x
    using that by (cases x) (auto simp add: truthy_def)
  have 1: "filter_by_date_range df start_date end_date yr mon timestamp_col =
     filter (\<lambda>r. in_range_from start_date (timestamp_col r) \<and>
                 in_range_to end_date (timestamp_col r) \<and>
                 (truthy yr \<longrightarrow> year r = yr) \<and>
                 (truthy mon \<and> truthy yr \<longrightarrow> month r = mon)) df"
    by (cases start_date; cases end_date)
       (auto simp add: filter_by_date_range_def in_range_from_def in_range_to_def Let_def
          intro!: filter_cong)
  have 2: "filter_by_date_range df start_date end_date yr mon timestamp_col =
      filter_by_date_range df start_date end_date yr None timestamp_col" if "\<not> truthy yr"
    using that by (simp add: filter_by_date_range_def)
  have 3: "filter_by_date_range df start_date end_date yr mon timestamp_col =
      filter_by_date_range_spec df start_date end_date yr mon timestamp_col"
    if "yr \<noteq> Some 0 \<and> mon \<noteq> Some 0"
    using that unfolding 1 filter_by_date_range_spec_def
    by (simp add: truthy_iff)
  from 1 2 3 show ?thesis by blast
qed

theorem filter_by_date_range_conjunctive_witness:
  "filter_by_date_range growing_sales None None (Some 2023) (Some 2) order_purchase_timestamp =
     [a_sale ''c'' 2023 2 20] \<and>
   filter_by_date_range growing_sales None None None (Some 2) order_purchase_timestamp =
     growing_sales \<and>
   filter_by_date_range_spec growing_sales None None (Some 2023) (Some 2) order_purchase_timestamp =
     [a_sale ''c'' 2023 2 20]"
  using filter_by_date_range_conjunctive
          [of growing_sales None None "Some 2023" "Some 2" order_purchase_timestamp]
        filter_by_date_range_conjunctive
          [of growing_sales None None None "Some 2" order_purchase_timestamp]
  by (simp add: growing_sales_def truthy_def in_range_from_def in_range_to_def
      filter_by_date_range_spec_def)

section \<open>Properties of the monthly growth\<close>

lemma groupby_nth:
  assumes "i < length (groupby key df)"
  shows "snd (groupby key df ! i) = filter (\<lambda>r. key r = Some (fst (groupby key df ! i))) df"
  using assms by (simp add: groupby_def)

lemma length_pct_change_values [simp]: "length (pct_change_values xs) = length xs"
  by (cases xs) simp_all

lemma pct_change_values_0: "xs \<noteq> [] \<Longrightarrow> pct_change_values xs ! 0 = NaN"
  by (cases xs) simp_all

lemma pct_change_values_Suc:
  assumes "Suc i < length xs"
  shows "pct_change_values xs ! Suc i = fsub (fdiv (Fin (xs ! Suc i)) (Fin (xs ! i))) (Fin 1)"
  using assms by (cases xs) simp_all

lemma pct_change_nth:
  assumes "i < length s"
  shows "pct_change s ! i = (fst (s ! i), pct_change_values (map snd s) ! i)"
  using assms by (simp add: pct_change_def)

lemma pct_change_keys [simp]: "map fst (pct_change s) = map fst s"
  by (simp add: pct_change_def)

lemma length_pct_change [simp]: "length (pct_change s) = length s"
  by (simp add: pct_change_def)

lemma monthly_growth_eq: "calculate_monthly_growth s y = pct_change (monthly_revenue s y)"
  by (simp add: calculate_monthly_growth_def monthly_revenue_def)

lemma monthly_revenue_keys:
  "map fst (monthly_revenue s y) = sort (remdups (List.map_filter month (filter (\<lambda>r. year r = Some y) s)))"
  by (simp add: monthly_revenue_def split_beta groupby_keys [symmetric] comp_def)

lemma monthly_revenue_nth:
  assumes "i < length (monthly_revenue s y)"
  shows "snd (monthly_revenue s y ! i) = monthly_revenue_of s y (fst (monthly_revenue s y ! i))"
proof -
  let ?yd = "filter (\<lambda>r. year r = Some y) s"
  from assms have i: "i < length (groupby month ?yd)"
    by (simp add: monthly_revenue_def)
  then have "monthly_revenue s y ! i =
      (fst (groupby month ?yd ! i), sum_skipna (map price (snd (groupby month ?yd ! i))))"
    by (simp add: monthly_revenue_def split_beta)
  with groupby_nth [OF i] show ?thesis
    by (simp add: monthly_revenue_of_def conj_commute)
qed

text \<open>
  What \<open>calculate_monthly_growth\<close> returns, for every table and year: a series indexed
  by the months that occur in the rows of the year, in ascending order, each once. Its
  first value is NaN; every later value is the change of the month's sum of prices
  against the sum of the month before it in the series, \<open>current / previous - 1\<close> in
  float arithmetic, which is \<open>(current - previous) / previous\<close> whenever the previous sum
  is not 0: a fraction of the previous sum, not a percentage.
\<close>

lemma monthly_growth_series:
  assumes "res = calculate_monthly_growth s y"
  shows "sorted_wrt (<) (map fst res) \<and>
         set (map fst res) = {m. \<exists>r\<in>set s. year r = Some y \<and> month r = Some m} \<and>
         (res \<noteq> [] \<longrightarrow> snd (res ! 0) = NaN) \<and>
         (\<forall>i. Suc i < length res \<longrightarrow>
            snd (res ! Suc i) =
              fsub (fdiv (Fin (monthly_revenue_of s y (fst (res ! Suc i))))
                         (Fin (monthly_revenue_of s y (fst (res ! i))))) (Fin 1)) \<and>
         (\<forall>i. Suc i < length res \<and> monthly_revenue_of s y (fst (res ! i)) \<noteq> 0 \<longrightarrow>
            snd (res ! Suc i) =
              Fin ((monthly_revenue_of s y (fst (res ! Suc i)) - monthly_revenue_of s y (fst (res ! i)))
                     / monthly_revenue_of s y (fst (res ! i))))"
proof -
  let ?M = "monthly_revenue s y"
  have res: "res = pct_change ?M"
    using assms by (simp add: monthly_growth_eq)
  have keys: "map fst res = sort (remdups (List.map_filter month (filter (\<lambda>r. year r = Some y) s)))"
    by (simp add: res monthly_revenue_keys)
  have a: "sorted_wrt (<) (map fst res)"
    by (simp add: keys strict_sorted_iff)
  have b: "set (map fst res) = {m. \<exists>r\<in>set s. year r = Some y \<and> month r = Some m}"
    unfolding keys by (auto simp add: set_map_filter_key)
  have c: "snd (res ! 0) = NaN" if "res \<noteq> []"
  proof -
    from that have "?M \<noteq> []" by (auto simp add: res pct_change_def)
    then show ?thesis
      by (simp add: res pct_change_nth pct_change_values_0)
  qed
  have d: "snd (res ! Suc i) =
              fsub (fdiv (Fin (monthly_revenue_of s y (fst (res ! Suc i))))
                         (Fin (monthly_revenue_of s y (fst (res ! i))))) (Fin 1)"
    if "Suc i < length res" for i
  proof -
    from that have l: "Suc i < length ?M" "i < length ?M" by (simp_all add: res)
    then show ?thesis
      by (simp add: res pct_change_nth pct_change_values_Suc monthly_revenue_nth)
  qed
  have e: "snd (res ! Suc i) =
              Fin ((monthly_revenue_of s y (fst (res ! Suc i)) - monthly_revenue_of s y (fst (res ! i)))
                     / monthly_revenue_of s y (fst (res ! i)))"
    if "Suc i < length res" "monthly_revenue_of s y (fst (res ! i)) \<noteq> 0" for i
    using d [OF that(1)] that(2) by (simp add: diff_divide_distrib)
  from a b c d e show ?thesis by blast
qed

lemma monthly_growth_sample:
  "calculate_monthly_growth growing_sales 2023 = [(1, NaN), (2, Fin (- (4 / 5)))]"
  by code_simp

text \<open>
  C8: the series has the claim's index and its null first value, but its values are not
  the percent change of the claim and of the docstring ("monthly growth percentages"):
  the source returns \<open>pct_change()\<close> as it is, without the \<open>* 100\<close> of the three growth
  functions beside it. Where the revenue falls from 100 in January to 20 in February,
  it returns -0.8, and the percent change is -80.
\<close>

theorem monthly_growth_fraction:
  "calculate_monthly_growth growing_sales 2023 = [(1, NaN), (2, Fin (- (4 / 5)))] \<and>
   monthly_revenue_of growing_sales 2023 1 = 100 \<and>
   monthly_revenue_of growing_sales 2023 2 = 20 \<and>
   growth_percent 20 100 = - 80"
  using monthly_growth_sample
  by (simp add: monthly_revenue_of_def growing_sales_def sum_skipna_def List.map_filter_simps
      growth_percent_def)

section \<open>Properties of the category and geographic performance\<close>

lemma first_min_less: "ys \<noteq> [] \<Longrightarrow> first_min ys < length ys"
  by (induction ys rule: first_min.induct) (simp_all add: Let_def)

lemma first_min_least: "z \<in> set ys \<Longrightarrow> fst (ys ! first_min ys) \<le> fst z"
proof (induction ys rule: first_min.induct)
  case 1
  then show ?case by simp
next
  case (2 x)
  then show ?case by simp
next
  case (3 x y ys)
  let ?j = "first_min (y # ys)"
  show ?case
  proof (cases "fst x \<le> fst ((y # ys) ! ?j)")
    case True
    then have fm: "first_min (x # y # ys) = 0" by (simp add: Let_def)
    show ?thesis
    proof (cases "z = x")
      case True
      with fm show ?thesis by simp
    next
      case False
      with "3.prems" have "z \<in> set (y # ys)" by simp
      from "3.IH" [OF this] True fm show ?thesis by simp
    qed
  next
    case False
    then have fm: "first_min (x # y # ys) = Suc ?j" by (simp add: Let_def)
    show ?thesis
    proof (cases "z = x")
      case True
      with fm False show ?thesis by simp
    next
      case False
      with "3.prems" have "z \<in> set (y # ys)" by simp
      from "3.IH" [OF this] fm show ?thesis by simp
    qed
  qed
qed

lemma mset_selection_sort: "mset (selection_sort ys) = mset ys"
proof (induction ys rule: selection_sort.induct)
  case 1
  then show ?case by simp
next
  case (2 x xs)
  show ?case
  proof (cases "first_min (x # xs)")
    case 0
    with 2 show ?thesis by simp
  next
    case (Suc j)
    with first_min_less [of "x # xs"] have j: "j < length xs" by simp
    then have "xs ! j \<in># mset xs" by simp
    with 2(2) [OF Suc] Suc j show ?thesis
      by (simp add: mset_update)
  qed
qed

lemma set_selection_sort: "set (selection_sort ys) = set ys"
  by (metis mset_selection_sort set_mset_mset)

lemma sorted_selection_sort: "sorted (map fst (selection_sort ys))"
proof (induction ys rule: selection_sort.induct)
  case 1
  then show ?case by simp
next
  case (2 x xs)
  show ?case
  proof (cases "first_min (x # xs)")
    case 0
    have "fst x \<le> fst z" if "z \<in> set xs" for z
      using first_min_least [of z "x # xs"] that 0 by simp
    with 2(1) [OF 0] 0 show ?thesis
      by (auto simp add: set_selection_sort)
  next
    case (Suc j)
    with first_min_less [of "x # xs"] have j: "j < length xs" by simp
    have least: "fst (xs ! j) \<le> fst z" if "z \<in> set (x # xs)" for z
      using first_min_least [OF that] Suc by simp
    have "fst (xs ! j) \<le> fst z" if "z \<in> set (xs[j := x])" for z
    proof -
      from that have "z \<in> insert x (set xs)"
        using set_update_subset_insert by fastforce
      then show ?thesis using least by simp
    qed
    with 2(2) [OF Suc] Suc show ?thesis
      by (auto simp add: set_selection_sort)
  qed
qed

lemma swapping_argsort_admissible: "admissible_argsort swapping_argsort_desc"
  unfolding admissible_argsort_def
proof (intro allI conjI)
  fix vs :: "real list"
  let ?P = "selection_sort (rev (zip vs [0..<length vs]))"
  have z: "map snd (zip vs [0..<length vs]) = [0..<length vs]"
    by (simp add: map_snd_zip)
  have "mset ?P = mset (zip vs [0..<length vs])"
    by (simp only: mset_selection_sort mset_rev)
  then have "image_mset snd (mset ?P) = image_mset snd (mset (zip vs [0..<length vs]))"
    by (rule arg_cong)
  then have m: "mset (map snd ?P) = mset [0..<length vs]"
    unfolding mset_map [symmetric] z .
  from mset_eq_imp_distinct_iff [OF m] show "distinct (swapping_argsort_desc vs)"
    by (simp add: swapping_argsort_desc_def)
  from mset_eq_setD [OF m] show "set (swapping_argsort_desc vs) = {0..<length vs}"
    by (simp add: swapping_argsort_desc_def)
  have val: "fst p = vs ! snd p" if "p \<in> set ?P" for p
  proof -
    from that have "p \<in> set (zip vs [0..<length vs])"
      by (simp add: set_selection_sort)
    then show ?thesis
      by (auto simp add: set_zip)
  qed
  have "sorted_wrt (\<lambda>p q. fst p \<le> fst q) ?P"
    using sorted_selection_sort [of "rev (zip vs [0..<length vs])"] by (simp add: sorted_map)
  then have "sorted_wrt (\<lambda>p q. vs ! snd p \<le> vs ! snd q) ?P"
    by (rule sorted_wrt_mono_rel [rotated]) (simp add: val)
  then have "sorted_wrt (\<lambda>i j. vs ! i \<le> vs ! j) (map snd ?P)"
    by (simp add: sorted_wrt_map)
  then show "sorted_wrt (\<lambda>i j. vs ! j \<le> vs ! i) (swapping_argsort_desc vs)"
    by (simp add: swapping_argsort_desc_def sorted_wrt_rev flip: rev_map)
qed

lemma sort_values_desc_set:
  assumes "admissible_argsort a"
  shows "set (sort_values_desc a key df) = set df"
proof -
  from assms have "set (a (map key df)) = {0..<length df}"
    by (simp add: admissible_argsort_def)
  then have "set (sort_values_desc a key df) = (\<lambda>i. df ! i) ` {0..<length df}"
    by (simp add: sort_values_desc_def)
  also have "\<dots> = set df"
    by (auto simp add: set_conv_nth)
  finally show ?thesis .
qed

lemma sort_values_desc_distinct:
  assumes "admissible_argsort a" "distinct (map f df)"
  shows "distinct (map f (sort_values_desc a key df))"
proof -
  from assms(1) have d: "distinct (a (map key df))"
    and s: "set (a (map key df)) = {0..<length df}"
    by (simp_all add: admissible_argsort_def)
  have "inj_on (\<lambda>i. f (df ! i)) (set (a (map key df)))"
  proof (rule inj_onI)
    fix i j
    assume "i \<in> set (a (map key df))" "j \<in> set (a (map key df))" "f (df ! i) = f (df ! j)"
    with s have "i < length (map f df)" "j < length (map f df)" "map f df ! i = map f df ! j"
      by simp_all
    with assms(2) show "i = j"
      by (simp only: nth_eq_iff_index_eq)
  qed
  with d show ?thesis
    by (simp add: sort_values_desc_def distinct_map comp_def)
qed

lemma sort_values_desc_sorted:
  assumes "admissible_argsort a"
  shows "descending (map key (sort_values_desc a key df))"
proof -
  from assms have s: "set (a (map key df)) = {0..<length df}"
    and o: "sorted_wrt (\<lambda>i j. map key df ! i \<ge> map key df ! j) (a (map key df))"
    by (simp_all add: admissible_argsort_def)
  from o have "sorted_wrt (\<lambda>i j. key (df ! i) \<ge> key (df ! j)) (a (map key df))"
    by (rule sorted_wrt_mono_rel [rotated]) (use s in auto)
  then show ?thesis
    by (simp add: descending_def sort_values_desc_def sorted_wrt_map)
qed

lemma group_name_agg [simp]: "group_name (agg_sum_count_mean k ps) = k"
  by (simp add: agg_sum_count_mean_def)

lemma grouped_table:
  fixes key :: "'r \<Rightarrow> string option"
  defines "T \<equiv> \<lambda>val df. map (\<lambda>(k, g). agg_sum_count_mean k (map val g)) (groupby key df)"
  shows "distinct (map group_name (T val df))"
    and "set (map group_name (T val df)) = {k. \<exists>r\<in>set df. key r = Some k}"
    and "row \<in> set (T val df) \<Longrightarrow>
         row = agg_sum_count_mean (group_name row)
                 (map val (filter (\<lambda>r. key r = Some (group_name row)) df))"
proof -
  have names: "map group_name (T val df) = sort (remdups (List.map_filter key df))"
    by (simp add: T_def split_beta groupby_keys [symmetric] comp_def)
  show "distinct (map group_name (T val df))"
    by (simp add: names)
  show "set (map group_name (T val df)) = {k. \<exists>r\<in>set df. key r = Some k}"
    by (simp add: names set_map_filter_key)
  show "row = agg_sum_count_mean (group_name row)
                 (map val (filter (\<lambda>r. key r = Some (group_name row)) df))"
    if "row \<in> set (T val df)"
    using that by (auto simp add: T_def groupby_def)
qed

lemma category_join_prices:
  "map (\<lambda>(l, r). snd l)
     (filter (\<lambda>(l, r). snd r = Some c)
        (merge_inner fst fst
           (map (\<lambda>r. (product_id r, price r)) s)
           (map (\<lambda>p. (p_product_id p, p_product_category_name p)) ps)))
   = category_prices s ps c"
  by (induction s)
     (simp_all add: merge_inner_def category_prices_def filter_map comp_def conj_commute)

lemma category_join_keys:
  "{k. \<exists>x\<in>set (merge_inner fst fst
           (map (\<lambda>r. (product_id r, price r)) s)
           (map (\<lambda>p. (p_product_id p, p_product_category_name p)) ps)).
        (case x of (l, r) \<Rightarrow> snd r) = Some k}
   = joined_categories s ps"
  by (auto simp add: merge_inner_def joined_categories_def)


lemma merge_inner_append:
  "merge_inner lk rk (xs @ ys) R = merge_inner lk rk xs R @ merge_inner lk rk ys R"
  by (simp add: merge_inner_def)

lemma merge_inner_Cons:
  "merge_inner lk rk (x # xs) R = map (\<lambda>r. (x, r)) (filter (\<lambda>r. rk r = lk x) R) @ merge_inner lk rk xs R"
  by (simp add: merge_inner_def)

lemma merge_inner_Nil [simp]: "merge_inner lk rk [] R = []"
  by (simp add: merge_inner_def)

lemma state_join_one:
  "map (\<lambda>((l, r), c). snd l)
     (filter (\<lambda>(lr, c). snd c = Some st)
        (merge_inner (\<lambda>(l, r). snd r) fst
           (map (\<lambda>x. ((oid, pr), x)) (map (\<lambda>ord. (o_order_id ord, o_customer_id ord)) os))
           (map (\<lambda>c. (c_customer_id c, c_customer_state c)) cs)))
   = concat (map (\<lambda>ord. map (\<lambda>c. pr)
                     (filter (\<lambda>c. c_customer_id c = o_customer_id ord \<and> c_customer_state c = Some st) cs))
               os)"
  by (induction os) (simp_all add: merge_inner_Cons filter_map comp_def conj_commute)

lemma state_join_prices:
  "map (\<lambda>((l, r), c). snd l)
     (filter (\<lambda>(lr, c). snd c = Some st)
        (merge_inner (\<lambda>(l, r). snd r) fst
           (merge_inner fst fst
              (map (\<lambda>r. (order_id r, price r)) s)
              (map (\<lambda>ord. (o_order_id ord, o_customer_id ord)) os))
           (map (\<lambda>c. (c_customer_id c, c_customer_state c)) cs)))
   = state_prices s os cs st"
proof (induction s)
  case Nil
  then show ?case by (simp add: state_prices_def)
next
  case (Cons r s)
  have one: "map (\<lambda>x. ((order_id r, price r), x))
               (filter (\<lambda>x. fst x = order_id r) (map (\<lambda>ord. (o_order_id ord, o_customer_id ord)) os))
             = map (\<lambda>x. ((order_id r, price r), x))
                 (map (\<lambda>ord. (o_order_id ord, o_customer_id ord)) (filter (\<lambda>ord. o_order_id ord = order_id r) os))"
    by (simp add: filter_map comp_def)
  have sp: "state_prices (r # s) os cs st =
        concat (map (\<lambda>ord. map (\<lambda>c. price r)
                     (filter (\<lambda>c. c_customer_id c = o_customer_id ord \<and> c_customer_state c = Some st) cs))
               (filter (\<lambda>ord. o_order_id ord = order_id r) os)) @ state_prices s os cs st"
    by (simp add: state_prices_def)
  show ?case
    unfolding sp Cons.IH [symmetric]
    by (simp only: list.map merge_inner_Cons merge_inner_append filter_append map_append fst_conv one
          state_join_one)
qed

lemma state_join_keys:
  "{k. \<exists>x\<in>set (merge_inner (\<lambda>(l, r). snd r) fst
           (merge_inner fst fst
              (map (\<lambda>r. (order_id r, price r)) s)
              (map (\<lambda>ord. (o_order_id ord, o_customer_id ord)) os))
           (map (\<lambda>c. (c_customer_id c, c_customer_state c)) cs)).
        (case x of (lr, c) \<Rightarrow> snd c) = Some k}
   = joined_states s os cs"
  by (auto simp add: merge_inner_def joined_states_def)

lemma category_join_prices':
  "map (\<lambda>x. snd (fst x))
     (filter (\<lambda>x. snd (snd x) = Some c)
        (merge_inner fst fst
           (map (\<lambda>r. (product_id r, price r)) s)
           (map (\<lambda>p. (p_product_id p, p_product_category_name p)) ps)))
   = category_prices s ps c"
  using category_join_prices [of c s ps] by (simp add: case_prod_unfold)

lemma category_join_keys':
  "{k. \<exists>x\<in>set (merge_inner fst fst
           (map (\<lambda>r. (product_id r, price r)) s)
           (map (\<lambda>p. (p_product_id p, p_product_category_name p)) ps)).
        snd (snd x) = Some k}
   = joined_categories s ps"
  using category_join_keys [of s ps] by (simp add: case_prod_unfold)

lemma state_join_prices':
  "map (\<lambda>x. snd (fst (fst x)))
     (filter (\<lambda>x. snd (snd x) = Some st)
        (merge_inner (\<lambda>x. snd (snd x)) fst
           (merge_inner fst fst
              (map (\<lambda>r. (order_id r, price r)) s)
              (map (\<lambda>ord. (o_order_id ord, o_customer_id ord)) os))
           (map (\<lambda>c. (c_customer_id c, c_customer_state c)) cs)))
   = state_prices s os cs st"
  using state_join_prices [of st s os cs] by (simp add: case_prod_unfold)

lemma state_join_keys':
  "{k. \<exists>x\<in>set (merge_inner (\<lambda>x. snd (snd x)) fst
           (merge_inner fst fst
              (map (\<lambda>r. (order_id r, price r)) s)
              (map (\<lambda>ord. (o_order_id ord, o_customer_id ord)) os))
           (map (\<lambda>c. (c_customer_id c, c_customer_state c)) cs)).
        snd (snd x) = Some k}
   = joined_states s os cs"
  using state_join_keys [of s os cs] by (simp add: case_prod_unfold)

lemma category_performance_rows:
  "distinct (map group_name (category_performance s ps))"
  "set (map group_name (category_performance s ps)) = joined_categories s ps"
  "row \<in> set (category_performance s ps) \<Longrightarrow>
     row = agg_sum_count_mean (group_name row) (category_prices s ps (group_name row))"
  unfolding category_performance_def Let_def case_prod_unfold
  using grouped_table [where key = "\<lambda>x. snd (snd x)" and val = "\<lambda>x. snd (fst x)"
      and df = "merge_inner fst fst
              (map (\<lambda>r. (product_id r, price r)) s)
              (map (\<lambda>p. (p_product_id p, p_product_category_name p)) ps)"]
  by (simp_all only: category_join_prices' category_join_keys' case_prod_unfold)

lemma geographic_performance_rows:
  "distinct (map group_name (geographic_performance s os cs))"
  "set (map group_name (geographic_performance s os cs)) = joined_states s os cs"
  "row \<in> set (geographic_performance s os cs) \<Longrightarrow>
     row = agg_sum_count_mean (group_name row) (state_prices s os cs (group_name row))"
  unfolding geographic_performance_def Let_def case_prod_unfold
  using grouped_table [where key = "\<lambda>x. snd (snd x)" and val = "\<lambda>x. snd (fst (fst x))"
      and df = "merge_inner (\<lambda>x. snd (snd x)) fst
           (merge_inner fst fst
              (map (\<lambda>r. (order_id r, price r)) s)
              (map (\<lambda>ord. (o_order_id ord, o_customer_id ord)) os))
           (map (\<lambda>c. (c_customer_id c, c_customer_state c)) cs)"]
  by (simp_all only: state_join_prices' state_join_keys' case_prod_unfold)

lemma sorted_table_of:
  assumes "admissible_argsort a" "distinct (map group_name T)" "set (map group_name T) = K"
    and "\<And>row. row \<in> set T \<Longrightarrow> P row"
  shows "sorted_table a T K P"
  unfolding sorted_table_def
proof (intro conjI ballI)
  show "descending (map total_revenue (sort_values_desc a total_revenue T))"
    using assms(1) by (rule sort_values_desc_sorted)
  show "distinct (map group_name (sort_values_desc a total_revenue T))"
    using assms(1,2) by (rule sort_values_desc_distinct)
  show "set (map group_name (sort_values_desc a total_revenue T)) = K"
    using assms(3) by (simp add: sort_values_desc_set [OF assms(1)])
  show "P row" if "row \<in> set (sort_values_desc a total_revenue T)" for row
    using that assms(4) by (simp add: sort_values_desc_set [OF assms(1)])
qed

lemma tie_table:
  "map group_name (category_performance tie_sales tie_products) = [''k0'', ''k1'', ''k2'', ''k3'', ''k4'']"
  "map total_revenue (category_performance tie_sales tie_products) = [10, 20, 30, 10, 20]"
  by code_simp+

lemma tie_sorted:
  "map group_name (calculate_product_category_performance swapping_argsort_desc tie_sales tie_products)
     = [''k2'', ''k4'', ''k1'', ''k0'', ''k3'']"
  "map total_revenue (calculate_product_category_performance swapping_argsort_desc tie_sales tie_products)
     = [30, 20, 20, 10, 10]"
  by code_simp+

lemma tie_stable:
  "map group_name (stable_descending total_revenue (category_performance tie_sales tie_products))
     = [''k2'', ''k1'', ''k4'', ''k0'', ''k3'']"
  by code_simp


text \<open>
  C3, as the spec states it, fails in its tie clause: the order among rows of equal
  revenue is the sort routine's, and pandas' default routine is not stable. With an
  admissible routine that swaps, the categories \<open>k1\<close> and \<open>k4\<close>, both with the revenue
  20 and in this order before the sort, come out as \<open>k4\<close>, \<open>k1\<close>, where the stable order
  of the claim has \<open>k1\<close>, \<open>k4\<close>.
\<close>

theorem tie_order_counterexample:
  "admissible_argsort swapping_argsort_desc \<and>
   map group_name (category_performance tie_sales tie_products) =
     [''k0'', ''k1'', ''k2'', ''k3'', ''k4''] \<and>
   map total_revenue (category_performance tie_sales tie_products) = [10, 20, 30, 10, 20] \<and>
   map group_name
     (calculate_product_category_performance swapping_argsort_desc tie_sales tie_products) =
     [''k2'', ''k4'', ''k1'', ''k0'', ''k3''] \<and>
   map group_name (stable_descending total_revenue (category_performance tie_sales tie_products)) =
     [''k2'', ''k1'', ''k4'', ''k0'', ''k3'']"
  using swapping_argsort_admissible tie_table tie_sorted tie_stable by simp

text \<open>
  C3, amended: for every input and every admissible sort routine, the result tables of
  \<open>calculate_product_category_performance\<close> and \<open>calculate_geographic_performance\<close> are
  sorted in descending order of \<open>total_revenue\<close>, equal revenues following each other.
  They have exactly one row for every category (state) that the join reaches, with the
  rounded sum, the count and the rounded mean of the prices of its joined rows. The
  order among rows of equal revenue is not guaranteed to be their input order.
\<close>

theorem performance_sorted_descending:
  assumes "admissible_argsort argsort_desc"
  shows "descending (map total_revenue
           (calculate_product_category_performance argsort_desc sales_data products_data)) \<and>
         distinct (map group_name
           (calculate_product_category_performance argsort_desc sales_data products_data)) \<and>
         set (map group_name
           (calculate_product_category_performance argsort_desc sales_data products_data)) =
           joined_categories sales_data products_data \<and>
         (\<forall>row\<in>set (calculate_product_category_performance argsort_desc sales_data products_data).
            row = agg_sum_count_mean (group_name row)
                    (category_prices sales_data products_data (group_name row))) \<and>
         descending (map total_revenue
           (calculate_geographic_performance argsort_desc sales_data orders_data customers_data)) \<and>
         distinct (map group_name
           (calculate_geographic_performance argsort_desc sales_data orders_data customers_data)) \<and>
         set (map group_name
           (calculate_geographic_performance argsort_desc sales_data orders_data customers_data)) =
           joined_states sales_data orders_data customers_data \<and>
         (\<forall>row\<in>set (calculate_geographic_performance argsort_desc sales_data orders_data customers_data).
            row = agg_sum_count_mean (group_name row)
                    (state_prices sales_data orders_data customers_data (group_name row)))"
proof -
  have cat: "sorted_table argsort_desc (category_performance sales_data products_data)
               (joined_categories sales_data products_data)
               (\<lambda>row. row = agg_sum_count_mean (group_name row)
                        (category_prices sales_data products_data (group_name row)))"
    by (rule sorted_table_of [OF assms category_performance_rows(1) category_performance_rows(2)
          category_performance_rows(3)])
  have geo: "sorted_table argsort_desc
               (geographic_performance sales_data orders_data customers_data)
               (joined_states sales_data orders_data customers_data)
               (\<lambda>row. row = agg_sum_count_mean (group_name row)
                        (state_prices sales_data orders_data customers_data (group_name row)))"
    by (rule sorted_table_of [OF assms geographic_performance_rows(1) geographic_performance_rows(2)
          geographic_performance_rows(3)])
  from cat geo show ?thesis
    unfolding calculate_product_category_performance_def calculate_geographic_performance_def
      sorted_table_def
    by blast
qed

theorem performance_sorted_descending_witness:
  "admissible_argsort swapping_argsort_desc \<and>
   map total_revenue
     (calculate_product_category_performance swapping_argsort_desc tie_sales tie_products) =
     [30, 20, 20, 10, 10] \<and>
   descending [30, 20, 20, 10, 10] \<and>
   joined_categories tie_sales tie_products = {''k0'', ''k1'', ''k2'', ''k3'', ''k4''}"
proof -
  note t = performance_sorted_descending [OF swapping_argsort_admissible, of tie_sales tie_products "[]" "[]"]
  from t have "descending (map total_revenue
      (calculate_product_category_performance swapping_argsort_desc tie_sales tie_products))"
    by (rule conjunct1)
  then have d: "descending [30, 20, 20, 10, 10]"
    by (simp only: tie_sorted)
  from t have "set (map group_name
      (calculate_product_category_performance swapping_argsort_desc tie_sales tie_products)) =
      joined_categories tie_sales tie_products"
    by (rule conjunct1 [OF conjunct2 [OF conjunct2]])
  then have "joined_categories tie_sales tie_products = set [''k2'', ''k4'', ''k1'', ''k0'', ''k3'']"
    by (simp only: tie_sorted)
  then have k: "joined_categories tie_sales tie_products = {''k0'', ''k1'', ''k2'', ''k3'', ''k4''}"
    by auto
  from d k swapping_argsort_admissible tie_sorted(2) show ?thesis by simp
qed

section \<open>Properties of the calls on the caller's tables\<close>

lemma to_datetime_parsed:
  "\<forall>s. Unparsable s \<notin> set cs \<Longrightarrow> to_datetime cs = Inr (map to_datetime_coerce cs)"
proof (induction cs)
  case Nil
  then show ?case by simp
next
  case (Cons c cs)
  then show ?case by (cases c) auto
qed

lemma to_datetime_raises:
  "Unparsable s \<in> set cs \<Longrightarrow> \<exists>s'. to_datetime cs = Inl (ValueError s') \<and> Unparsable s' \<in> set cs"
proof (induction cs)
  case Nil
  then show ?case by simp
next
  case (Cons c cs)
  show ?case
  proof (cases c)
    case Null
    with Cons show ?thesis by auto
  next
    case (Unparsable t)
    then show ?thesis by auto
  next
    case (Stamp t)
    with Cons show ?thesis by auto
  qed
qed

lemma status_distribution_after:
  "(case calculate_order_status_distribution a f y of
      Inl e \<Rightarrow> None
    | Inr (shares, f') \<Rightarrow> Some f') =
   (if \<exists>s. Unparsable s \<in> set (map o_order_purchase_timestamp (of_rows f)) then None
    else Some (f\<lparr>of_year := Some (map purchase_year (of_rows f))\<rparr>))"
proof (cases "\<exists>s. Unparsable s \<in> set (map o_order_purchase_timestamp (of_rows f))")
  case True
  then obtain s where "Unparsable s \<in> set (map o_order_purchase_timestamp (of_rows f))" ..
  from to_datetime_raises [OF this] True show ?thesis
    by (auto simp add: calculate_order_status_distribution_def)
next
  case False
  then have "to_datetime (map o_order_purchase_timestamp (of_rows f)) =
             Inr (map to_datetime_coerce (map o_order_purchase_timestamp (of_rows f)))"
    by (intro to_datetime_parsed) simp
  with False show ?thesis
    by (simp add: calculate_order_status_distribution_def Let_def purchase_year_def comp_def)
qed

lemma status_call_sample:
  "snd (calculate_order_status_distribution_call swapping_argsort_desc 1 2023 sample_store) 1 =
     Some (OrdersTable (sample_orders_frame\<lparr>of_year := Some [Some 2023, Some 2023, Some 2023]\<rparr>))"
  "fst (calculate_order_status_distribution_call swapping_argsort_desc 1 2023 sample_store) =
     Inr [(''delivered'', 6667 / 10000), (''canceled'', 3333 / 10000)]"
  by code_simp+

text \<open>
  C6, as the spec states it, fails: \<open>calculate_order_status_distribution\<close> is not the
  customer-experience function, and it changes its input. Called on the sample orders
  table, which has no \<open>year\<close> column, it returns the distribution and leaves the
  caller's table with that column.
\<close>

theorem status_distribution_assigns_counterexample:
  "sample_store 1 = Some (OrdersTable sample_orders_frame) \<and>
   of_year sample_orders_frame = None \<and>
   fst (calculate_order_status_distribution_call swapping_argsort_desc 1 2023 sample_store) =
     Inr [(''delivered'', 6667 / 10000), (''canceled'', 3333 / 10000)] \<and>
   snd (calculate_order_status_distribution_call swapping_argsort_desc 1 2023 sample_store) 1 =
     Some (OrdersTable (sample_orders_frame\<lparr>of_year := Some [Some 2023, Some 2023, Some 2023]\<rparr>))"
  using status_call_sample by (simp add: sample_store_def sample_orders_frame_def)


text \<open>
  C6, amended: every metrics function except \<open>calculate_customer_experience_metrics\<close> and
  \<open>calculate_order_status_distribution\<close> is pure: for every store of tables and all
  arguments, the call leaves every table of the store as it was, whether it returns or
  raises. The customer-experience function attaches the column \<open>delivery_speed_days\<close>,
  the delivery speed of every row, onto its sales table in place, and
  \<open>calculate_order_status_distribution\<close> attaches the column \<open>year\<close>, the year of every
  purchase, onto its orders table in place, unless a purchase timestamp cannot be parsed;
  each changes no other column of that table and no other table of the store.
\<close>

theorem metrics_calls_frame:
  "snd (calculate_revenue_metrics_call sales_data cy py \<sigma>) = \<sigma> \<and>
   snd (calculate_monthly_growth_call sales_data y \<sigma>) = \<sigma> \<and>
   snd (calculate_average_order_value_call sales_data cy py \<sigma>) = \<sigma> \<and>
   snd (calculate_order_volume_metrics_call sales_data cy py \<sigma>) = \<sigma> \<and>
   snd (calculate_product_category_performance_call argsort_desc sales_data products_data \<sigma>) = \<sigma> \<and>
   snd (calculate_geographic_performance_call argsort_desc sales_data orders_data customers_data \<sigma>) = \<sigma> \<and>
   snd (categorize_delivery_speed_call days \<sigma>) = \<sigma> \<and>
   snd (generate_business_summary_call fmt revenue_metrics aov_metrics order_metrics cx_metrics \<sigma>) = \<sigma> \<and>
   snd (calculate_customer_experience_metrics_call sales_data reviews_data \<sigma>) =
     (case read_sales \<sigma> sales_data of
        Inl e \<Rightarrow> \<sigma>
      | Inr f \<Rightarrow>
          \<sigma>(sales_data :=
               Some (SalesTable (f\<lparr>sf_delivery_speed_days := Some (map delivery_speed (sf_rows f))\<rparr>)))) \<and>
   snd (calculate_order_status_distribution_call argsort_desc orders_data y \<sigma>) =
     (case read_orders \<sigma> orders_data of
        Inl e \<Rightarrow> \<sigma>
      | Inr f \<Rightarrow>
          if \<exists>s. Unparsable s \<in> set (map o_order_purchase_timestamp (of_rows f)) then \<sigma>
          else \<sigma>(orders_data :=
                    Some (OrdersTable (f\<lparr>of_year := Some (map purchase_year (of_rows f))\<rparr>))))"
proof (intro conjI)
  show "snd (calculate_customer_experience_metrics_call sales_data reviews_data \<sigma>) =
     (case read_sales \<sigma> sales_data of
        Inl e \<Rightarrow> \<sigma>
      | Inr f \<Rightarrow>
          \<sigma>(sales_data :=
               Some (SalesTable (f\<lparr>sf_delivery_speed_days := Some (map delivery_speed (sf_rows f))\<rparr>))))"
    by (auto simp add: calculate_customer_experience_metrics_call_def attach_delivery_speed_def
        delivery_speed_def Let_def split: sum.splits)
  show "snd (calculate_order_status_distribution_call argsort_desc orders_data y \<sigma>) =
     (case read_orders \<sigma> orders_data of
        Inl e \<Rightarrow> \<sigma>
      | Inr f \<Rightarrow>
          if \<exists>s. Unparsable s \<in> set (map o_order_purchase_timestamp (of_rows f)) then \<sigma>
          else \<sigma>(orders_data :=
                    Some (OrdersTable (f\<lparr>of_year := Some (map purchase_year (of_rows f))\<rparr>))))"
  proof (cases "read_orders \<sigma> orders_data")
    case (Inl e)
    then show ?thesis by (simp add: calculate_order_status_distribution_call_def)
  next
    case (Inr f)
    with status_distribution_after [of argsort_desc f y] show ?thesis
      by (auto simp add: calculate_order_status_distribution_call_def split: sum.splits if_splits)
  qed
qed (simp_all add: calculate_revenue_metrics_call_def calculate_monthly_growth_call_def
      calculate_average_order_value_call_def calculate_order_volume_metrics_call_def
      calculate_product_category_performance_call_def calculate_geographic_performance_call_def
      generate_business_summary_call_def categorize_delivery_speed_call_def split: sum.splits)

lemma cx_call_sample:
  "read_sales sample_store 0 = Inr sample_sales_frame"
  "map delivery_speed (sf_rows sample_sales_frame) = [Some 3, Some (- 1)]"
  by code_simp+

theorem metrics_calls_frame_witness:
  "snd (calculate_revenue_metrics_call 0 2023 2022 sample_store) = sample_store \<and>
   snd (calculate_customer_experience_metrics_call 0 2 sample_store) =
     sample_store(0 := Some (SalesTable
        (sample_sales_frame\<lparr>sf_delivery_speed_days := Some [Some 3, Some (- 1)]\<rparr>)))"
  using metrics_calls_frame
          [where sales_data = 0 and cy = 2023 and py = 2022 and reviews_data = 2
             and \<sigma> = sample_store]
    cx_call_sample
  by simp


end
